theory Spec2Isabelle
  imports Complex_Main
begin

section \<open>Trading journal: the cloud entry store and its request handlers\<close>

text \<open>
  A shallow embedding of \<^verbatim>\<open>src/app.py\<close>. Each handler is modelled as the body of the
  view function (what runs once \<^verbatim>\<open>login_required\<close> lets the request through): it takes
  the parsed request body and the file system and returns the response with the new file
  system. Python values that come from JSON keep their dynamic type; an operation that
  Python rejects with an exception is a branch that returns that exception, and the
  handler's \<^verbatim>\<open>except\<close> clauses turn it into a response.
\<close>

subsection \<open>JSON values and the Python operations used on them\<close>

text \<open>
  A \<^verbatim>\<open>str\<close> is a list of characters, one \<open>char\<close> for each character of the Python
  string. A \<^verbatim>\<open>dict\<close> is an association list in insertion order with distinct keys;
  a \<^verbatim>\<open>float\<close> is the real number it denotes (no NaN, no infinities, no rounding).
\<close>

datatype json =
    JNull
  | JBool bool
  | JInt int
  | JFloat real
  | JStr string
  | JArr "json list"
  | JObj "(string \<times> json) list"

type_synonym dict = "(string \<times> json) list"

datatype exc =
    PermissionError
  | AttributeError
  | TypeError
  | KeyError
  | IndexError
  | ExternalError string

text \<open>The body of a response: \<open>ErrorStr e\<close> stands for \<^verbatim>\<open>jsonify({'error': str(e)})\<close>.\<close>

datatype body = Json json | ErrorStr exc

record response =
  body :: body
  code :: nat

definition jsonify :: "json \<Rightarrow> response" where
  "jsonify v = \<lparr>body = Json v, code = 200\<rparr>"

definition jsonify_status :: "json \<Rightarrow> nat \<Rightarrow> response" where
  "jsonify_status v s = \<lparr>body = Json v, code = s\<rparr>"

definition error_payload :: "string \<Rightarrow> json" where
  "error_payload msg = JObj [(''error'', JStr msg)]"

text \<open>\<^verbatim>\<open>except Exception as e: return jsonify({'error': str(e)}), 500\<close>\<close>

definition generic_failure :: "exc \<Rightarrow> response" where
  "generic_failure e = \<lparr>body = ErrorStr e, code = 500\<rparr>"

text \<open>\<^verbatim>\<open>d.get(k, dflt)\<close> and \<^verbatim>\<open>d.get(k)\<close> on a dict.\<close>

definition dict_get :: "dict \<Rightarrow> string \<Rightarrow> json \<Rightarrow> json" where
  "dict_get d k dflt = (case map_of d k of None \<Rightarrow> dflt | Some v \<Rightarrow> v)"

text \<open>\<^verbatim>\<open>d[k] = v\<close>: an existing key keeps its place, a new key goes last.\<close>

fun dict_set :: "dict \<Rightarrow> string \<Rightarrow> json \<Rightarrow> dict" where
  "dict_set [] k v = [(k, v)]"
| "dict_set ((k', v') # d) k v =
     (if k' = k then (k, v) # d else (k', v') # dict_set d k v)"

text \<open>\<^verbatim>\<open>x.get(k, dflt)\<close> on any value: only a dict has \<^verbatim>\<open>get\<close>.\<close>

definition py_get :: "json \<Rightarrow> string \<Rightarrow> json \<Rightarrow> exc + json" where
  "py_get x k dflt = (case x of JObj d \<Rightarrow> Inr (dict_get d k dflt) | _ \<Rightarrow> Inl AttributeError)"

text \<open>Truth value of a Python object in \<^verbatim>\<open>if x\<close> and \<^verbatim>\<open>not x\<close>.\<close>

fun truthy :: "json \<Rightarrow> bool" where
  "truthy JNull = False"
| "truthy (JBool b) = b"
| "truthy (JInt i) = (i \<noteq> 0)"
| "truthy (JFloat r) = (r \<noteq> 0)"
| "truthy (JStr s) = (s \<noteq> [])"
| "truthy (JArr xs) = (xs \<noteq> [])"
| "truthy (JObj d) = (d \<noteq> [])"

text \<open>\<^verbatim>\<open>len(x)\<close>: defined on strings, lists and dicts.\<close>

fun py_len :: "json \<Rightarrow> exc + nat" where
  "py_len (JStr s) = Inr (length s)"
| "py_len (JArr xs) = Inr (length xs)"
| "py_len (JObj d) = Inr (length d)"
| "py_len _ = Inl TypeError"

text \<open>
  A value compared with a number: \<^verbatim>\<open>int\<close>, \<^verbatim>\<open>bool\<close> (a subclass of \<^verbatim>\<open>int\<close>) and
  \<^verbatim>\<open>float\<close> are ordered against \<^verbatim>\<open>0\<close> and \<^verbatim>\<open>len(entries)\<close>; anything else raises
  \<^verbatim>\<open>TypeError\<close>. Only \<^verbatim>\<open>int\<close> and \<^verbatim>\<open>bool\<close> can index a list.
\<close>

fun as_real :: "json \<Rightarrow> real option" where
  "as_real (JInt i) = Some (real_of_int i)"
| "as_real (JBool b) = Some (if b then 1 else 0)"
| "as_real (JFloat r) = Some r"
| "as_real _ = None"

fun as_int :: "json \<Rightarrow> int option" where
  "as_int (JInt i) = Some i"
| "as_int (JBool b) = Some (if b then 1 else 0)"
| "as_int _ = None"

subsection \<open>Files, the session and the deployment\<close>

text \<open>
  A file either holds a JSON text, which \<^verbatim>\<open>json.load\<close> parses to a value, or anything
  else, on which \<^verbatim>\<open>json.load\<close> raises. \<^verbatim>\<open>open\<close> raises on a path that cannot be read
  (or written): a locked file, missing rights.
\<close>

datatype file_content = Content json | Corrupt

record fs =
  files :: "string \<rightharpoonup> file_content"
  readable :: "string \<Rightarrow> bool"
  writable :: "string \<Rightarrow> bool"

record env =
  is_cloud :: bool
  app_dir :: string
  session_user :: "string option"
  environ :: "string \<rightharpoonup> string"
  config_path :: string

definition get_current_user :: "env \<Rightarrow> string" where
  "get_current_user ev = (case session_user ev of None \<Rightarrow> ''default'' | Some u \<Rightarrow> u)"

text \<open>\<^verbatim>\<open>str.isalnum\<close> and \<^verbatim>\<open>str.lower\<close> on the ASCII characters.\<close>

definition isalnum :: "char \<Rightarrow> bool" where
  "isalnum c = (let n = (of_char c :: nat) in
     (48 \<le> n \<and> n \<le> 57) \<or> (65 \<le> n \<and> n \<le> 90) \<or> (97 \<le> n \<and> n \<le> 122))"

definition lower :: "char \<Rightarrow> char" where
  "lower c = (let n = (of_char c :: nat) in
     if 65 \<le> n \<and> n \<le> 90 then char_of (n + 32) else c)"

definition get_user_journal_path :: "env \<Rightarrow> string option \<Rightarrow> string" where
  "get_user_journal_path ev username =
     (let u = (case username of None \<Rightarrow> get_current_user ev | Some u \<Rightarrow> u);
          safe_username = map lower (filter (\<lambda>c. isalnum c \<or> c \<in> set ''-_'') u);
          safe_username = (if safe_username = [] then ''default'' else safe_username)
      in app_dir ev @ ''/journal_'' @ safe_username @ ''.json'')"

subsection \<open>Cloud journal storage\<close>

definition empty_journal :: json where
  "empty_journal = JObj [(''entries'', JArr [])]"

definition load_cloud_journal :: "env \<Rightarrow> fs \<Rightarrow> string option \<Rightarrow> json" where
  "load_cloud_journal ev s username =
     (let journal_path = get_user_journal_path ev username in
      case files s journal_path of
        None \<Rightarrow> empty_journal
      | Some f \<Rightarrow>
          (if \<not> readable s journal_path then empty_journal
           else case f of Content v \<Rightarrow> v | Corrupt \<Rightarrow> empty_journal))"

text \<open>Returns whether the write succeeded, and the file system after it.\<close>

definition save_cloud_journal :: "env \<Rightarrow> fs \<Rightarrow> json \<Rightarrow> string option \<Rightarrow> bool \<times> fs" where
  "save_cloud_journal ev s data username =
     (let journal_path = get_user_journal_path ev username in
      if writable s journal_path
      then (True, s\<lparr>files := (files s)(journal_path \<mapsto> Content data)\<rparr>)
      else (False, s))"

text \<open>
  \<^verbatim>\<open>journal["entries"].append(entry)\<close> raises when the journal is not a dict
  (\<^verbatim>\<open>TypeError\<close> on a list or a string index, which is what the source's handlers
  report as any other exception), has no such key, or holds something that is not a list.
\<close>

definition add_cloud_entry :: "env \<Rightarrow> fs \<Rightarrow> json \<Rightarrow> string option \<Rightarrow> exc + (bool \<times> fs)" where
  "add_cloud_entry ev s entry username =
     (case load_cloud_journal ev s username of
        JObj journal \<Rightarrow>
          (case map_of journal ''entries'' of
             None \<Rightarrow> Inl KeyError
           | Some (JArr entries) \<Rightarrow>
               Inr (save_cloud_journal ev s
                      (JObj (dict_set journal ''entries'' (JArr (entries @ [entry])))) username)
           | Some _ \<Rightarrow> Inl AttributeError)
      | _ \<Rightarrow> Inl TypeError)"

subsection \<open>Deleting and updating an entry by index\<close>

definition removed :: "nat \<Rightarrow> 'a list \<Rightarrow> 'a list" where
  \<comment> \<open>the list after \<^verbatim>\<open>entries.pop(k)\<close>\<close>
  "removed k es = take k es @ drop (Suc k) es"

text \<open>
  The cloud branch of \<^verbatim>\<open>api_delete_entry\<close>, up to the handler's \<^verbatim>\<open>except\<close>. The file
  system is returned in every branch: an exception raised after
  \<^verbatim>\<open>save_cloud_journal\<close> leaves the written file behind. The result of
  \<^verbatim>\<open>save_cloud_journal\<close> is not looked at.
\<close>

definition delete_cloud :: "env \<Rightarrow> fs \<Rightarrow> json \<Rightarrow> (exc + response) \<times> fs" where
  "delete_cloud ev s entry_index =
     (case load_cloud_journal ev s None of
        JObj journal \<Rightarrow>
          (let entries = dict_get journal ''entries'' (JArr []) in
           case as_real entry_index of
             None \<Rightarrow> (Inl TypeError, s)
           | Some x \<Rightarrow>
               (case py_len entries of
                  Inl e \<Rightarrow> (Inl e, s)
                | Inr n \<Rightarrow>
                    (let x = (if x < 0 then real n + x else x) in
                     if 0 \<le> x \<and> x < real n then
                       (case entries of
                          JArr es \<Rightarrow>
                            (case as_int entry_index of
                               None \<Rightarrow> (Inl TypeError, s)
                             | Some i \<Rightarrow>
                                 (let k = nat (if i < 0 then int n + i else i);
                                      deleted = es ! k;
                                      (ok, s') = save_cloud_journal ev s
                                         (JObj (dict_set journal ''entries'' (JArr (removed k es)))) None
                                  in case py_get deleted ''timestamp'' (JStr ''Unknown'') of
                                       Inl e \<Rightarrow> (Inl e, s')
                                     | Inr ts \<Rightarrow>
                                         (Inr (jsonify (JObj [(''success'', JBool True),
                                                              (''deleted'', ts)])), s')))
                        | JStr _ \<Rightarrow> (Inl AttributeError, s)
                        | _ \<Rightarrow> (Inl KeyError, s))
                     else (Inr (jsonify_status (error_payload ''Entry not found'') 404), s))))
      | _ \<Rightarrow> (Inl AttributeError, s))"

definition api_delete_entry :: "env \<Rightarrow> fs \<Rightarrow> json \<Rightarrow> response \<times> fs" where
  "api_delete_entry ev s data =
     (case py_get data ''index'' JNull of
        Inl e \<Rightarrow> (generic_failure e, s)
      | Inr entry_index \<Rightarrow>
          if entry_index = JNull
          then (jsonify_status (error_payload ''Missing entry index'') 400, s)
          else if is_cloud ev then
            (case delete_cloud ev s entry_index of
               (Inl e, s') \<Rightarrow> (generic_failure e, s')
             | (Inr r, s') \<Rightarrow> (r, s'))
          else (jsonify_status (error_payload ''Delete not supported in local mode'') 400, s))"

text \<open>
  \<^verbatim>\<open>new_content[:150].replace('\n', ' ')\<close>, with \<^verbatim>\<open>'...'\<close> after it when the content
  is longer than 150 characters.
\<close>

definition preview_of :: "string \<Rightarrow> string" where
  "preview_of c =
     (let preview_text = map (\<lambda>ch. if ch = CHR 0x0A then CHR '' '' else ch) (take 150 c)
      in if length c > 150 then preview_text @ ''...'' else preview_text)"

definition update_entry :: "dict \<Rightarrow> string \<Rightarrow> string \<Rightarrow> dict" where
  "update_entry entry c now =
     dict_set (dict_set (dict_set entry ''content'' (JStr c)) ''edited'' (JStr now))
       ''preview'' (JStr (preview_of c))"

text \<open>
  The cloud branch of \<^verbatim>\<open>api_update_entry\<close>; \<open>now\<close> is
  \<^verbatim>\<open>datetime.now().strftime('%Y-%m-%d %H:%M')\<close>. Every exception here is raised before
  \<^verbatim>\<open>save_cloud_journal\<close>, so it leaves the file system as it was. The chained
  comparison \<^verbatim>\<open>0 <= entry_index < len(entries)\<close> evaluates \<^verbatim>\<open>len(entries)\<close> only when
  \<^verbatim>\<open>0 <= entry_index\<close> holds.
\<close>

definition update_cloud :: "env \<Rightarrow> fs \<Rightarrow> string \<Rightarrow> json \<Rightarrow> json \<Rightarrow> exc + (response \<times> fs)" where
  "update_cloud ev s now entry_index new_content =
     (case load_cloud_journal ev s None of
        JObj journal \<Rightarrow>
          (let entries = dict_get journal ''entries'' (JArr []) in
           case as_real entry_index of
             None \<Rightarrow> Inl TypeError
           | Some x \<Rightarrow>
               if \<not> 0 \<le> x
               then Inr (jsonify_status (error_payload ''Entry not found'') 404, s)
               else
                 (case py_len entries of
                    Inl e \<Rightarrow> Inl e
                  | Inr n \<Rightarrow>
                      if x < real n then
                        (case entries of
                           JArr es \<Rightarrow>
                             (case as_int entry_index of
                                None \<Rightarrow> Inl TypeError
                              | Some i \<Rightarrow>
                                  (case es ! nat i of
                                     JObj entry \<Rightarrow>
                                       (case new_content of
                                          JStr c \<Rightarrow>
                                            (let (ok, s') = save_cloud_journal ev s
                                                   (JObj (dict_set journal ''entries''
                                                      (JArr (es[nat i := JObj (update_entry entry c now)]))))
                                                   None
                                             in Inr (jsonify (JObj [(''success'', JBool True),
                                                       (''message'', JStr ''Entry updated'')]), s'))
                                        | JArr _ \<Rightarrow> Inl AttributeError
                                        | _ \<Rightarrow> Inl TypeError)
                                   | _ \<Rightarrow> Inl TypeError))
                         | JStr _ \<Rightarrow> Inl TypeError
                         | _ \<Rightarrow> Inl KeyError)
                      else Inr (jsonify_status (error_payload ''Entry not found'') 404, s)))
      | _ \<Rightarrow> Inl AttributeError)"

text \<open>
  \<^verbatim>\<open>api_update_entry\<close> is defined twice in the source; the second definition (by index)
  is the one bound to the name, and the one modelled here.
\<close>

definition api_update_entry :: "env \<Rightarrow> fs \<Rightarrow> string \<Rightarrow> json \<Rightarrow> response \<times> fs" where
  "api_update_entry ev s now data =
     (case py_get data ''index'' JNull of
        Inl e \<Rightarrow> (generic_failure e, s)
      | Inr entry_index \<Rightarrow>
          (case py_get data ''content'' JNull of
             Inl e \<Rightarrow> (generic_failure e, s)
           | Inr new_content \<Rightarrow>
               if entry_index = JNull
               then (jsonify_status (error_payload ''Missing entry index'') 400, s)
               else if \<not> truthy new_content
               then (jsonify_status (error_payload ''Missing content'') 400, s)
               else if is_cloud ev then
                 (case update_cloud ev s now entry_index new_content of
                    Inl e \<Rightarrow> (generic_failure e, s)
                  | Inr (r, s') \<Rightarrow> (r, s'))
               else (jsonify_status (error_payload ''Update not supported in local mode'') 400, s)))"

subsection \<open>Saving entries\<close>

text \<open>
  The entry written for one element of the request: \<open>est\<close> is what
  \<^verbatim>\<open>get_est_timestamp()\<close> returns and \<open>utc\<close> is
  \<^verbatim>\<open>datetime.now(timezone.utc).isoformat()\<close> at that iteration.
\<close>

definition cloud_entry :: "dict \<Rightarrow> string \<Rightarrow> string \<Rightarrow> json" where
  "cloud_entry entry est utc =
     JObj [(''timestamp'', dict_get entry ''timestamp'' (JStr est)),
           (''sentiment'', dict_get entry ''sentiment'' (JObj [])),
           (''content'', dict_get entry ''content'' (JStr [])),
           (''saved_at'', JStr utc)]"

text \<open>
  The loop of the cloud branch; \<open>clock k\<close> is the pair of clock readings of iteration
  \<open>k\<close>. It stops at the first element that is not a dict (\<^verbatim>\<open>entry.get\<close> raises), at
  an exception of \<^verbatim>\<open>add_cloud_entry\<close>, or at a failed write; the entries written
  before that stay written. \<open>Inr None\<close>: the loop ran to its end.
\<close>

fun save_loop ::
  "env \<Rightarrow> (nat \<Rightarrow> string \<times> string) \<Rightarrow> nat \<Rightarrow> fs \<Rightarrow> json list \<Rightarrow> (exc + response option) \<times> fs" where
  "save_loop ev clock k s [] = (Inr None, s)"
| "save_loop ev clock k s (entry # rest) =
     (case entry of
        JObj d \<Rightarrow>
          (case add_cloud_entry ev s (cloud_entry d (fst (clock k)) (snd (clock k))) None of
             Inl e \<Rightarrow> (Inl e, s)
           | Inr (ok, s') \<Rightarrow>
               if \<not> ok
               then (Inr (Some (jsonify_status (error_payload ''Failed to save entry'') 500)), s')
               else save_loop ev clock (Suc k) s' rest)
      | _ \<Rightarrow> (Inl AttributeError, s))"

text \<open>\<^verbatim>\<open>except PermissionError\<close> comes before \<^verbatim>\<open>except Exception\<close> in three handlers.\<close>

definition save_failure :: "exc \<Rightarrow> response" where
  "save_failure e =
     (if e = PermissionError
      then jsonify_status (error_payload ''File is open in another program'') 500
      else generic_failure e)"

definition read_failure :: "exc \<Rightarrow> response" where
  "read_failure e =
     (if e = PermissionError
      then jsonify_status (error_payload ''Journal file is open in another program'') 500
      else generic_failure e)"

text \<open>
  The document-backed branch works through python-docx and \<^verbatim>\<open>requests\<close>. Its outcome
  is a parameter: \<open>docx_installed\<close> is \<^verbatim>\<open>Document is not None\<close>, \<open>doc_exists\<close> is
  \<^verbatim>\<open>os.path.exists(JOURNAL_PATH)\<close>, \<open>doc_paragraphs\<close> is what
  \<^verbatim>\<open>Document(JOURNAL_PATH).paragraphs\<close> gives (the text of each paragraph, or the
  exception raised on opening), and \<open>doc_write entries\<close> is how opening, extending and
  saving the document for these entries ends.
\<close>

record local_doc =
  journal_path :: string
  docx_installed :: bool
  doc_exists :: bool
  doc_paragraphs :: "exc + string list"
  doc_write :: "json \<Rightarrow> exc + unit"

definition api_save_journal ::
  "env \<Rightarrow> local_doc \<Rightarrow> (nat \<Rightarrow> string \<times> string) \<Rightarrow> fs \<Rightarrow> json \<Rightarrow> response \<times> fs" where
  "api_save_journal ev doc clock s data =
     (case py_get data ''entries'' (JArr []) of
        Inl e \<Rightarrow> (save_failure e, s)
      | Inr entries \<Rightarrow>
          if \<not> truthy entries
          then (jsonify_status (error_payload ''No entries to save'') 400, s)
          else if is_cloud ev then
            (case entries of
               JArr es \<Rightarrow>
                 (case save_loop ev clock 0 s es of
                    (Inl e, s') \<Rightarrow> (save_failure e, s')
                  | (Inr (Some r), s') \<Rightarrow> (r, s')
                  | (Inr None, s') \<Rightarrow>
                      (jsonify (JObj [(''success'', JBool True),
                                      (''count'', JInt (int (length es))),
                                      (''mode'', JStr ''cloud'')]), s'))
             | JStr _ \<Rightarrow> (save_failure AttributeError, s)
             | JObj _ \<Rightarrow> (save_failure AttributeError, s)
             | _ \<Rightarrow> (save_failure TypeError, s))
          else if \<not> docx_installed doc
          then (jsonify_status (error_payload ''python-docx not installed'') 500, s)
          else
            (case doc_write doc entries of
               Inl e \<Rightarrow> (save_failure e, s)
             | Inr _ \<Rightarrow>
                 (case py_len entries of
                    Inl e \<Rightarrow> (save_failure e, s)
                  | Inr n \<Rightarrow>
                      (jsonify (JObj [(''success'', JBool True),
                                      (''count'', JInt (int n)),
                                      (''path'', JStr (journal_path doc))]), s))))"

subsection \<open>Listing and viewing entries\<close>

text \<open>\<^verbatim>\<open>journal['entries']\<close>\<close>

definition journal_entries :: "json \<Rightarrow> exc + json" where
  "journal_entries journal =
     (case journal of
        JObj d \<Rightarrow> (case map_of d ''entries'' of None \<Rightarrow> Inl KeyError | Some v \<Rightarrow> Inr v)
      | _ \<Rightarrow> Inl TypeError)"

text \<open>The values a \<^verbatim>\<open>for\<close> loop runs over: a string gives its characters, a dict its keys.\<close>

fun py_iter :: "json \<Rightarrow> exc + json list" where
  "py_iter (JArr xs) = Inr xs"
| "py_iter (JStr cs) = Inr (map (\<lambda>c. JStr [c]) cs)"
| "py_iter (JObj d) = Inr (map (\<lambda>(k, v). JStr k) d)"
| "py_iter _ = Inl TypeError"

text \<open>One element of the listing, in the order in which the source evaluates it.\<close>

definition list_item :: "json \<Rightarrow> exc + json" where
  "list_item entry =
     (case entry of
        JObj d \<Rightarrow>
          (let content = dict_get d ''content'' JNull in
           case (if truthy content
                 then (case content of
                         JStr c \<Rightarrow> Inr (JStr (take 100 c @ ''...''))
                       | _ \<Rightarrow> Inl TypeError)
                 else Inr (JStr [])) of
             Inl e \<Rightarrow> Inl e
           | Inr preview \<Rightarrow>
               (case py_get (dict_get d ''sentiment'' (JObj [])) ''label'' (JStr []) of
                  Inl e \<Rightarrow> Inl e
                | Inr label \<Rightarrow>
                    Inr (JObj [(''timestamp'', dict_get d ''timestamp'' (JStr [])),
                               (''sentiment'', label),
                               (''preview'', preview),
                               (''content'', dict_get d ''content'' (JStr []))])))
      | _ \<Rightarrow> Inl AttributeError)"

fun list_items :: "json list \<Rightarrow> exc + json list" where
  "list_items [] = Inr []"
| "list_items (entry # rest) =
     (case list_item entry of
        Inl e \<Rightarrow> Inl e
      | Inr item \<Rightarrow> (case list_items rest of Inl e \<Rightarrow> Inl e | Inr items \<Rightarrow> Inr (item # items)))"

definition list_cloud :: "env \<Rightarrow> fs \<Rightarrow> exc + response" where
  "list_cloud ev s =
     (case journal_entries (load_cloud_journal ev s None) of
        Inl e \<Rightarrow> Inl e
      | Inr stored \<Rightarrow>
          if \<not> truthy stored
          then Inr (jsonify (JObj [(''entries'', JArr []),
                                   (''message'', JStr ''No journal entries found'')]))
          else
            (case py_iter stored of
               Inl e \<Rightarrow> Inl e
             | Inr xs \<Rightarrow>
                 (case list_items xs of
                    Inl e \<Rightarrow> Inl e
                  | Inr entries \<Rightarrow>
                      Inr (jsonify (JObj [(''entries'', JArr (take 10 (rev entries)))])))))"

text \<open>
  \<open>local\<close> is the outcome of the document-backed branch of \<^verbatim>\<open>api_list_entries\<close>
  (the parsing of the Word paragraphs), which is not modelled.
\<close>

definition api_list_entries :: "env \<Rightarrow> fs \<Rightarrow> exc + response \<Rightarrow> response" where
  "api_list_entries ev s local =
     (case (if is_cloud ev then list_cloud ev s else local) of
        Inl e \<Rightarrow> read_failure e
      | Inr r \<Rightarrow> r)"

text \<open>
  Characters that the source writes literally and that lie outside Latin-1 are each
  represented by one reserved \<open>char\<close>: the rule U+2550, the bullet U+2022, the dash
  U+2013 and the three circles U+1F7E2, U+1F534, U+1F7E1.
\<close>

definition rule_char :: char where "rule_char = CHR 0xCD"
definition bullet :: char where "bullet = CHR 0x95"
definition dash :: char where "dash = CHR 0x96"
definition green_circle :: char where "green_circle = CHR 0x81"
definition red_circle :: char where "red_circle = CHR 0x82"
definition yellow_circle :: char where "yellow_circle = CHR 0x83"

definition nl :: string where "nl = [CHR 0x0A]"

text \<open>
  \<^verbatim>\<open>str(x)\<close> as an f-string formats it: a string is itself; the text of any other
  value is given by \<open>repr\<close>, a parameter.
\<close>

definition py_str :: "(json \<Rightarrow> string) \<Rightarrow> json \<Rightarrow> string" where
  "py_str repr v = (case v of JStr s \<Rightarrow> s | _ \<Rightarrow> repr v)"

text \<open>\<^verbatim>\<open>sep.join(parts)\<close>: every part must be a string.\<close>

fun py_join :: "string \<Rightarrow> json list \<Rightarrow> exc + string" where
  "py_join sep [] = Inr []"
| "py_join sep [JStr a] = Inr a"
| "py_join sep (JStr a # rest) =
     (case py_join sep rest of Inl e \<Rightarrow> Inl e | Inr r \<Rightarrow> Inr (a @ sep @ r))"
| "py_join sep (_ # rest) = Inl TypeError"

definition view_parts :: "(json \<Rightarrow> string) \<Rightarrow> json \<Rightarrow> exc + json list" where
  "view_parts repr entry =
     (case entry of
        JObj d \<Rightarrow>
          (let s = dict_get d ''sentiment'' JNull in
           case (if truthy s
                 then (case s of
                         JObj sd \<Rightarrow>
                           Inr [JStr (''Market Sentiment: '' @ py_str repr (dict_get sd ''icon'' (JStr []))
                                      @ '' '' @ py_str repr (dict_get sd ''label'' (JStr [])))]
                       | _ \<Rightarrow> Inl AttributeError)
                 else Inr []) of
             Inl e \<Rightarrow> Inl e
           | Inr sentiment_line \<Rightarrow>
               Inr ([JStr (replicate 60 rule_char), JStr ''TRADING JOURNAL ENTRY'',
                     dict_get d ''timestamp'' (JStr [])]
                    @ sentiment_line
                    @ [JStr (replicate 60 rule_char), dict_get d ''content'' (JStr []), JStr []]))
      | _ \<Rightarrow> Inl AttributeError)"

fun content_parts :: "(json \<Rightarrow> string) \<Rightarrow> json list \<Rightarrow> exc + json list" where
  "content_parts repr [] = Inr []"
| "content_parts repr (entry # rest) =
     (case view_parts repr entry of
        Inl e \<Rightarrow> Inl e
      | Inr ps \<Rightarrow>
          (case content_parts repr rest of Inl e \<Rightarrow> Inl e | Inr qs \<Rightarrow> Inr (ps @ qs)))"

definition view_cloud :: "(json \<Rightarrow> string) \<Rightarrow> env \<Rightarrow> fs \<Rightarrow> exc + response" where
  "view_cloud repr ev s =
     (case journal_entries (load_cloud_journal ev s None) of
        Inl e \<Rightarrow> Inl e
      | Inr stored \<Rightarrow>
          if \<not> truthy stored
          then Inr (jsonify (JObj [(''content'', JNull),
                                   (''message'', JStr ''No journal entries found'')]))
          else
            (case py_iter stored of
               Inl e \<Rightarrow> Inl e
             | Inr xs \<Rightarrow>
                 (case content_parts repr xs of
                    Inl e \<Rightarrow> Inl e
                  | Inr parts \<Rightarrow>
                      (case py_join nl parts of
                         Inl e \<Rightarrow> Inl e
                       | Inr text \<Rightarrow> Inr (jsonify (JObj [(''content'', JStr text)]))))))"

text \<open>\<^verbatim>\<open>str.strip()\<close> on Latin-1 text.\<close>

definition isspace :: "char \<Rightarrow> bool" where
  "isspace c = (let n = (of_char c :: nat) in
     (9 \<le> n \<and> n \<le> 13) \<or> (28 \<le> n \<and> n \<le> 32) \<or> n = 133 \<or> n = 160)"

definition strip :: "string \<Rightarrow> string" where
  "strip s = rev (dropWhile isspace (rev (dropWhile isspace s)))"

definition view_local :: "local_doc \<Rightarrow> exc + response" where
  "view_local doc =
     (if \<not> doc_exists doc
      then Inr (jsonify (JObj [(''content'', JNull), (''message'', JStr ''No journal file found'')]))
      else if \<not> docx_installed doc
      then Inr (jsonify_status (error_payload ''python-docx not installed'') 500)
      else
        (case doc_paragraphs doc of
           Inl e \<Rightarrow> Inl e
         | Inr paras \<Rightarrow>
             (case py_join nl (map JStr (filter (\<lambda>t. t \<noteq> []) (map strip paras))) of
                Inl e \<Rightarrow> Inl e
              | Inr text \<Rightarrow> Inr (jsonify (JObj [(''content'', JStr text)])))))"

definition api_view_journal :: "(json \<Rightarrow> string) \<Rightarrow> env \<Rightarrow> local_doc \<Rightarrow> fs \<Rightarrow> response" where
  "api_view_journal repr ev doc s =
     (case (if is_cloud ev then view_cloud repr ev s else view_local doc) of
        Inl e \<Rightarrow> read_failure e
      | Inr r \<Rightarrow> r)"

subsection \<open>Configuration\<close>

definition env_mappings :: "(string \<times> string) list" where
  "env_mappings =
     [(''ANTHROPIC_API_KEY'', ''api_key''),
      (''CLOUDINARY_CLOUD_NAME'', ''cloudinary_cloud_name''),
      (''CLOUDINARY_API_KEY'', ''cloudinary_api_key''),
      (''CLOUDINARY_API_SECRET'', ''cloudinary_api_secret'')]"

text \<open>The first loop of \<^verbatim>\<open>load_config\<close>: \<^verbatim>\<open>if env_val\<close> skips an unset and an empty variable.\<close>

fun apply_env :: "(string \<rightharpoonup> string) \<Rightarrow> (string \<times> string) list \<Rightarrow> dict \<Rightarrow> dict" where
  "apply_env en [] config = config"
| "apply_env en ((env_var, config_key) # rest) config =
     apply_env en rest
       (case en env_var of
          None \<Rightarrow> config
        | Some env_val \<Rightarrow> if env_val \<noteq> [] then dict_set config config_key (JStr env_val) else config)"

text \<open>The second loop: a value of the file is taken where the configuration has none yet.\<close>

fun apply_file :: "dict \<Rightarrow> dict \<Rightarrow> dict" where
  "apply_file [] config = config"
| "apply_file ((key, val) # rest) config =
     apply_file rest (if \<not> truthy (dict_get config key JNull) then dict_set config key val else config)"

definition load_config :: "env \<Rightarrow> fs \<Rightarrow> dict" where
  "load_config ev s =
     (let config = apply_env (environ ev) env_mappings
                     [(''api_key'', JStr []),
                      (''cloudinary_cloud_name'', JStr []),
                      (''cloudinary_api_key'', JStr []),
                      (''cloudinary_api_secret'', JStr [])]
      in if \<not> is_cloud ev \<and> files s (config_path ev) \<noteq> None then
           (if \<not> readable s (config_path ev) then config
            else case files s (config_path ev) of
                   Some (Content (JObj data)) \<Rightarrow> apply_file data config
                 | _ \<Rightarrow> config)
         else config)"

definition get_api_key :: "env \<Rightarrow> fs \<Rightarrow> json" where
  "get_api_key ev s = dict_get (load_config ev s) ''api_key'' (JStr [])"

subsection \<open>The market snapshot and its sentiment\<close>

text \<open>
  Prices and changes are floats in the source; here each is the real number it denotes,
  so the comparisons below are those of the source on every value that is a number.
  \<open>round2\<close> is \<^verbatim>\<open>round(x, 2)\<close>, which rounds a tie to the even neighbour.
\<close>

definition round2 :: "real \<Rightarrow> real" where
  "round2 x =
     (let y = x * 100; f = \<lfloor>y\<rfloor>; d = y - of_int f
      in of_int (if d < 1 / 2 then f else if d > 1 / 2 then f + 1
                 else if even f then f else f + 1) / 100)"

record quote =
  name :: string
  price :: real
  change :: real
  direction :: string

record vix_quote = quote +
  status :: string

record sentiment =
  label :: string
  color :: string
  icon :: string

text \<open>
  The dict \<^verbatim>\<open>data\<close> of \<^verbatim>\<open>get_market_data\<close>: the index quotes under their ticker
  symbols in insertion order, the entry \<^verbatim>\<open>'VIX'\<close> when there is one, and the keys
  \<^verbatim>\<open>'sentiment'\<close> and \<^verbatim>\<open>'timestamp'\<close>.
\<close>

record market_data =
  md_quotes :: "(string \<times> quote) list"
  md_vix :: "vix_quote option"
  md_sentiment :: sentiment
  md_timestamp :: string

text \<open>
  What yfinance returns: for a ticker the \<^verbatim>\<open>Close\<close> column of its five-day history,
  for \<^verbatim>\<open>^VIX\<close> the \<^verbatim>\<open>Close\<close> column of the one-day minute history and the
  \<^verbatim>\<open>previousClose\<close> entry of \<^verbatim>\<open>t.info\<close> when it has one; each may raise instead.
\<close>

record yf_feed =
  history :: "string \<Rightarrow> exc + real list"
  vix_history :: "exc + real list"
  vix_previous_close :: "exc + real option"

definition symbols :: "(string \<times> string) list" where
  "symbols =
     [(''^GSPC'', ''SPX''), (''^NDX'', ''NDX''), (''^RUT'', ''RUT''), (''^DJI'', ''DJI''),
      (''GLD'', ''Gold''), (''BTC-USD'', ''Bitcoin''), (''TLT'', ''TLT'')]"

definition direction_of :: "real \<Rightarrow> string" where
  "direction_of ch = (if ch > 0 then ''up'' else if ch < 0 then ''down'' else ''flat'')"

text \<open>
  One pass of the loop over the symbols: \<open>None\<close> when nothing is stored for the symbol
  (the history is shorter than two rows, or the inner \<^verbatim>\<open>except: pass\<close> swallowed an
  exception, the division by a zero previous close among them).
\<close>

definition index_quote :: "yf_feed \<Rightarrow> string \<Rightarrow> string \<Rightarrow> quote option" where
  "index_quote yf symb nm =
     (case history yf symb of
        Inl e \<Rightarrow> None
      | Inr hist \<Rightarrow>
          if length hist \<ge> 2 then
            (let curr = hist ! (length hist - 1);
                 prev_close = hist ! (length hist - 2)
             in if prev_close = 0 then None
                else (let ch = ((curr - prev_close) / prev_close) * 100
                      in Some \<lparr>name = nm, price = round2 curr, change = round2 ch,
                               direction = direction_of ch\<rparr>))
          else None)"

fun index_quotes :: "yf_feed \<Rightarrow> (string \<times> string) list \<Rightarrow> (string \<times> quote) list" where
  "index_quotes yf [] = []"
| "index_quotes yf ((symb, nm) # rest) =
     (case index_quote yf symb nm of
        None \<Rightarrow> index_quotes yf rest
      | Some q \<Rightarrow> (symb, q) # index_quotes yf rest)"

definition fetch_vix :: "yf_feed \<Rightarrow> vix_quote option" where
  "fetch_vix yf =
     (case vix_history yf of
        Inl e \<Rightarrow> None
      | Inr hist \<Rightarrow>
          if length hist \<noteq> 0 then
            (let curr = hist ! (length hist - 1) in
             case vix_previous_close yf of
               Inl e \<Rightarrow> None
             | Inr p \<Rightarrow>
                 (let prev = (case p of None \<Rightarrow> curr | Some v \<Rightarrow> v);
                      ch = (if prev \<noteq> 0 then ((curr - prev) / prev) * 100 else 0)
                  in Some \<lparr>name = ''VIX'', price = round2 curr, change = round2 ch,
                           direction = direction_of ch,
                           status = (if curr < 15 then ''LOW''
                                     else if curr > 25 then ''ELEVATED'' else ''NORMAL'')\<rparr>))
          else None)"

text \<open>Lines 346 to 357: the two readings with their defaults, and the score.\<close>

definition spy_change :: "(string \<times> quote) list \<Rightarrow> real" where
  "spy_change qs = (case map_of qs ''^GSPC'' of None \<Rightarrow> 0 | Some q \<Rightarrow> change q)"

definition vix_price :: "vix_quote option \<Rightarrow> real" where
  "vix_price v = (case v of None \<Rightarrow> 20 | Some q \<Rightarrow> price q)"

definition score_of :: "real \<Rightarrow> real \<Rightarrow> int" where
  "score_of spy_ch vix =
     (let score = 0;
          score = (if spy_ch > 1 then score + 2
                   else if spy_ch > 3 / 10 then score + 1
                   else if spy_ch < - 1 then score - 2
                   else if spy_ch < - (3 / 10) then score - 1
                   else score);
          score = (if vix < 15 then score + 1
                   else if vix > 25 then score - 1
                   else score);
          score = (if vix > 30 then score - 1 else score)
      in score)"

text \<open>Lines 359 to 368.\<close>

definition sentiment_of :: "int \<Rightarrow> sentiment" where
  "sentiment_of score =
     (if score \<ge> 3 then \<lparr>label = ''STRONGLY BULLISH'', color = ''green'', icon = [green_circle]\<rparr>
      else if score \<ge> 1 then \<lparr>label = ''BULLISH'', color = ''lightgreen'', icon = [green_circle]\<rparr>
      else if score \<le> - 3 then \<lparr>label = ''STRONGLY BEARISH'', color = ''red'', icon = [red_circle]\<rparr>
      else if score \<le> - 1 then \<lparr>label = ''BEARISH'', color = ''salmon'', icon = [red_circle]\<rparr>
      else \<lparr>label = ''NEUTRAL'', color = ''yellow'', icon = [yellow_circle]\<rparr>)"

text \<open>
  \<open>yf\<close> is \<open>None\<close> when the yfinance module is missing; \<open>now\<close> is the clock reading
  formatted with \<^verbatim>\<open>'%I:%M:%S %p EST'\<close>. Nothing after the two fetches can raise, so the
  outer \<^verbatim>\<open>except\<close> has no branch here.
\<close>

definition get_market_data :: "yf_feed option \<Rightarrow> string \<Rightarrow> market_data option" where
  "get_market_data yf now =
     (case yf of
        None \<Rightarrow> None
      | Some feed \<Rightarrow>
          (let qs = index_quotes feed symbols;
               v = fetch_vix feed
           in Some \<lparr>md_quotes = qs, md_vix = v,
                    md_sentiment = sentiment_of (score_of (spy_change qs) (vix_price v)),
                    md_timestamp = now\<rparr>))"

text \<open>\<open>shw\<close> is \<^verbatim>\<open>str\<close> on a float, as the f-strings apply it.\<close>

definition quote_line :: "(real \<Rightarrow> string) \<Rightarrow> string \<Rightarrow> 'a quote_scheme \<Rightarrow> string" where
  "quote_line shw symb d =
     (let sign = (if change d > 0 then ''+'' else [])
      in ''  '' @ name d @ '' ('' @ symb @ ''): $'' @ shw (price d)
         @ '' ('' @ sign @ shw (change d) @ ''%)'')"

definition vix_line :: "(real \<Rightarrow> string) \<Rightarrow> vix_quote \<Rightarrow> string" where
  "vix_line shw v =
     (let sign = (if change v > 0 then ''+'' else [])
      in ''  VIX: '' @ shw (price v) @ '' ('' @ sign @ shw (change v) @ ''%) - '' @ status v)"

text \<open>\<^verbatim>\<open>'\n'.join(lines)\<close> on a list of strings.\<close>

fun join_lines :: "string list \<Rightarrow> string" where
  "join_lines [] = []"
| "join_lines [l] = l"
| "join_lines (l # ls) = l @ nl @ join_lines ls"

definition format_market_for_prompt :: "(real \<Rightarrow> string) \<Rightarrow> market_data option \<Rightarrow> string" where
  "format_market_for_prompt shw data =
     (case data of
        None \<Rightarrow> []
      | Some d \<Rightarrow>
          (let lines = [''Current Market Conditions:''];
               lines = lines @ concat (map (\<lambda>symb. case map_of (md_quotes d) symb of
                                                    None \<Rightarrow> [] | Some q \<Rightarrow> [quote_line shw symb q])
                                           (map fst symbols));
               lines = lines @ (case md_vix d of None \<Rightarrow> [] | Some v \<Rightarrow> [quote_line shw ''VIX'' v]);
               lines = lines @ (case md_vix d of None \<Rightarrow> [] | Some v \<Rightarrow> [vix_line shw v]);
               lines = lines @ [''  Overall Sentiment: '' @ icon (md_sentiment d) @ '' ''
                                @ label (md_sentiment d)]
           in join_lines lines))"

subsection \<open>Processing an entry through the LLM\<close>

definition SYSTEM_PROMPT :: string where
  "SYSTEM_PROMPT =
     ''You are my Trading Journal. Each time I speak or ramble, convert my thoughts into a structured trading-journal entry. Extract and organize only what I actually say:''
     @ nl @ nl
     @ bullet # '' My emotional state'' @ nl
     @ bullet # '' Market conditions I mentioned'' @ nl
     @ bullet # '' Trades I took or considered'' @ nl
     @ bullet # '' My reasoning and expectations'' @ nl
     @ bullet # '' Mistakes I noticed'' @ nl
     @ bullet # '' Lessons learned'' @ nl
     @ bullet # '' Follow-up items for the next session'' @ nl @ nl
     @ ''Rules:'' @ nl
     @ bullet # '' Keep the tone neutral, factual, and concise.'' @ nl
     @ bullet # '' If I speak in fragments or ramble, infer structure but do not invent facts.'' @ nl
     @ bullet # '' Do not add commentary beyond what I explicitly said.'' @ nl
     @ bullet # '' Reorganize my thoughts into a clean, professional journal entry.'' @ nl @ nl
     @ ''End each entry with:'' @ nl
     @ bullet # '' A short 2'' @ dash # ''3 sentence summary'' @ nl
     @ bullet # '' 1'' @ dash # ''3 reflection questions that would help me improve'' @ nl @ nl
     @ ''Format the entry with clear section headers using bullet points. Start with a header line showing the date and time provided.''
     @ nl @ nl
     @ ''If market data is provided, incorporate relevant observations into the Market Conditions section.''"

text \<open>
  The message of lines 503 to 512. \<open>market\<close> is the snapshot fetched for the prompt:
  \<open>None\<close> when \<^verbatim>\<open>include_market\<close> is false or \<^verbatim>\<open>get_market_data()\<close> gave nothing.
\<close>

definition build_message ::
  "(json \<Rightarrow> string) \<Rightarrow> (real \<Rightarrow> string) \<Rightarrow> string \<Rightarrow> market_data option \<Rightarrow> json \<Rightarrow> string" where
  "build_message repr shw timestamp market raw_text =
     (let msg = ''Date/Time: '' @ timestamp @ nl @ nl;
          msg = (case market of
                   None \<Rightarrow> msg
                 | Some d \<Rightarrow> msg @ format_market_for_prompt shw (Some d) @ nl @ nl)
      in msg @ ''My trading thoughts:'' @ nl @ py_str repr raw_text)"

definition sentiment_json :: "sentiment \<Rightarrow> json" where
  "sentiment_json st =
     JObj [(''label'', JStr (label st)), (''color'', JStr (color st)), (''icon'', JStr (icon st))]"

text \<open>
  One call of \<^verbatim>\<open>client.messages.create\<close>: the API key, the system prompt and the
  content of the single user message (the model name and \<^verbatim>\<open>max_tokens\<close> are constants
  of the source). \<open>llm\<close> gives the outcome of a call: the texts of the content blocks of
  the response, or the exception raised.
\<close>

type_synonym llm_call = "json \<times> string \<times> string"

text \<open>
  \<open>timestamp\<close> is what \<^verbatim>\<open>get_est_timestamp()\<close> returns; \<open>feeds k\<close> is the state of
  yfinance and the clock reading at call number \<open>k\<close> of \<^verbatim>\<open>get_market_data\<close> within the
  request. The handler returns its response and the calls it made to the LLM.
\<close>

definition api_process_entry ::
  "(json \<Rightarrow> string) \<Rightarrow> (real \<Rightarrow> string) \<Rightarrow> env \<Rightarrow> fs \<Rightarrow> string \<Rightarrow> (nat \<Rightarrow> yf_feed option \<times> string)
   \<Rightarrow> (llm_call \<Rightarrow> exc + string list) \<Rightarrow> json \<Rightarrow> response \<times> llm_call list" where
  "api_process_entry repr shw ev s timestamp feeds llm data =
     (case py_get data ''text'' (JStr []) of
        Inl e \<Rightarrow> (generic_failure e, [])
      | Inr raw_text \<Rightarrow>
          (case py_get data ''include_market'' (JBool True) of
             Inl e \<Rightarrow> (generic_failure e, [])
           | Inr include_market \<Rightarrow>
               if \<not> truthy raw_text
               then (jsonify_status (error_payload ''No text provided'') 400, [])
               else
                 (let api_key = get_api_key ev s in
                  if \<not> truthy api_key
                  then (jsonify_status (error_payload ''API key not configured'') 400, [])
                  else
                    (let market = (if truthy include_market
                                   then get_market_data (fst (feeds 0)) (snd (feeds 0))
                                   else None);
                         msg = build_message repr shw timestamp market raw_text;
                         call = (api_key, SYSTEM_PROMPT, msg)
                     in case llm call of
                          Inl e \<Rightarrow> (generic_failure e, [call])
                        | Inr [] \<Rightarrow> (generic_failure IndexError, [call])
                        | Inr (formatted_entry # _) \<Rightarrow>
                            (let k = (if truthy include_market then 1 else 0);
                                 market_data = get_market_data (fst (feeds k)) (snd (feeds k));
                                 sentiment = (case market_data of
                                                None \<Rightarrow> JObj []
                                              | Some d \<Rightarrow> sentiment_json (md_sentiment d))
                             in (jsonify (JObj [(''timestamp'', JStr timestamp),
                                                (''sentiment'', sentiment),
                                                (''content'', JStr formatted_entry),
                                                (''raw_text'', raw_text)]), [call]))))))"

subsection \<open>The specification's reading of the sentiment score\<close>


subsection \<open>Auxiliary notions and sample inputs\<close>

definition sample_feed :: yf_feed where
  "sample_feed =
     \<lparr>history = (\<lambda>symb. if symb = ''^GSPC'' then Inr [100, 102]
                          else Inl (ExternalError ''no data'')),
      vix_history = Inr [14],
      vix_previous_close = Inr None\<rparr>"

definition cloud_env :: env where
  "cloud_env = \<lparr>is_cloud = True, app_dir = ''/app'', session_user = None,
                 environ = Map.empty, config_path = ''/home/trader/.trading_journal_web_config''\<rparr>"

definition local_env :: env where
  "local_env = cloud_env\<lparr>is_cloud := False\<rparr>"

text \<open>A file system in which every path can be read and written.\<close>

definition open_fs :: "(string \<rightharpoonup> file_content) \<Rightarrow> fs" where
  "open_fs f = \<lparr>files = f, readable = (\<lambda>p. True), writable = (\<lambda>p. True)\<rparr>"

definition entry_a :: dict where
  "entry_a = [(''timestamp'', JStr ''Monday, March 03, 2025 09:30 AM EST''),
              (''sentiment'', JObj []), (''content'', JStr ''Bought SPY''),
              (''saved_at'', JStr ''2025-03-03T14:30:00+00:00'')]"

definition entry_b :: dict where
  "entry_b = [(''timestamp'', JStr ''Tuesday, March 04, 2025 10:00 AM EST''),
              (''sentiment'', JObj []), (''content'', JStr ''Sold SPY''),
              (''saved_at'', JStr ''2025-03-04T15:00:00+00:00'')]"

definition two_entries :: fs where
  "two_entries = open_fs [''/app/journal_default.json'' \<mapsto>
                    Content (JObj [(''entries'', JArr [JObj entry_a, JObj entry_b])])]"

text \<open>Whether a loaded journal is a dict with the key \<^verbatim>\<open>'entries'\<close>.\<close>

definition has_entries :: "json \<Rightarrow> bool" where
  "has_entries v = (case v of JObj d \<Rightarrow> map_of d ''entries'' \<noteq> None | _ \<Rightarrow> False)"

text \<open>A journal file holding the JSON text \<^verbatim>\<open>{}\<close>.\<close>

definition bare_journal :: fs where
  "bare_journal = open_fs [''/app/journal_default.json'' \<mapsto> Content (JObj [])]"

text \<open>Whether a request body is a JSON object, the only kind of value with \<^verbatim>\<open>get\<close>.\<close>

fun is_dict :: "json \<Rightarrow> bool" where
  "is_dict (JObj d) = True"
| "is_dict _ = False"

text \<open>
  The entries that a request list contributes, in request order: element number \<open>j\<close> is
  normalized with the clock readings of iteration \<open>k + j\<close>.
\<close>

fun normalized :: "(nat \<Rightarrow> string \<times> string) \<Rightarrow> nat \<Rightarrow> dict list \<Rightarrow> json list" where
  "normalized clock k [] = []"
| "normalized clock k (d # ds) =
     cloud_entry d (fst (clock k)) (snd (clock k)) # normalized clock (Suc k) ds"

definition fixed_clock :: "nat \<Rightarrow> string \<times> string" where
  "fixed_clock k = (''Wednesday, March 05, 2025 08:15 AM EST'', ''2025-03-05T13:15:00+00:00'')"

definition no_doc :: local_doc where
  "no_doc = \<lparr>journal_path = ''Trading Journal.docx'', docx_installed = False, doc_exists = False,
             doc_paragraphs = Inr [], doc_write = (\<lambda>entries. Inr ())\<rparr>"

definition one_entry_request :: json where
  "one_entry_request = JObj [(''entries'', JArr [JObj [(''content'', JStr ''Held cash'')]])]"

definition numeric_content_request :: json where
  "numeric_content_request = JObj [(''entries'', JArr [JObj [(''content'', JInt 5)]])]"

text \<open>
  The dict that \<^verbatim>\<open>load_config\<close> reads from the configuration file: none in cloud
  mode, without a file, and when the file cannot be opened, does not parse or does not
  hold a JSON object. \<open>env_value\<close> is the value of an environment variable, empty when
  the variable is unset.
\<close>

definition config_file :: "env \<Rightarrow> fs \<Rightarrow> dict option" where
  "config_file ev s =
     (if is_cloud ev \<or> \<not> readable s (config_path ev) then None
      else case files s (config_path ev) of
             Some (Content (JObj data)) \<Rightarrow> Some data
           | _ \<Rightarrow> None)"

definition env_value :: "env \<Rightarrow> string \<Rightarrow> string" where
  "env_value ev env_var = (case environ ev env_var of None \<Rightarrow> [] | Some v \<Rightarrow> v)"

definition config_fs :: fs where
  "config_fs = open_fs [''/home/trader/.trading_journal_web_config'' \<mapsto>
                          Content (JObj [(''api_key'', JStr ''sk-file'')])]"

definition env_key_set :: env where
  "env_key_set = local_env\<lparr>environ := [''ANTHROPIC_API_KEY'' \<mapsto> ''sk-env'']\<rparr>"

definition env_key_empty :: env where
  "env_key_empty = local_env\<lparr>environ := [''ANTHROPIC_API_KEY'' \<mapsto> []]\<rparr>"

text \<open>
  A Word document that is open in another program, and one that python-docx cannot
  read; stand-ins for \<^verbatim>\<open>str\<close> on a value and on a float; a feed, an LLM and a request
  for \<^verbatim>\<open>api_process_entry\<close>.
\<close>

definition locked_doc :: local_doc where
  "locked_doc = \<lparr>journal_path = ''Trading Journal.docx'', docx_installed = True, doc_exists = True,
                 doc_paragraphs = Inl PermissionError,
                 doc_write = (\<lambda>entries. Inl PermissionError)\<rparr>"

definition broken_doc :: local_doc where
  "broken_doc = \<lparr>journal_path = ''Trading Journal.docx'', docx_installed = True, doc_exists = True,
                 doc_paragraphs = Inl (ExternalError ''Package not found''),
                 doc_write = (\<lambda>entries. Inl (ExternalError ''Package not found''))\<rparr>"

definition plain_repr :: "json \<Rightarrow> string" where
  "plain_repr v = []"

definition plain_shw :: "real \<Rightarrow> string" where
  "plain_shw x = (if x = 102 then ''102.0'' else if x = 2 then ''2.0''
                  else if x = 14 then ''14.0'' else ''0.0'')"

definition sample_feeds :: "nat \<Rightarrow> yf_feed option \<times> string" where
  "sample_feeds k = (Some sample_feed, ''09:30:00 AM EST'')"

definition sample_llm :: "llm_call \<Rightarrow> exc + string list" where
  "sample_llm call = Inr [''Entry of Wednesday'']"

definition process_request :: json where
  "process_request = JObj [(''text'', JStr ''Bought SPY at the open''), (''include_market'', JBool True)]"

text \<open>
  The same file system with every write refused, and a journal file whose first element
  is not an entry.
\<close>

definition read_only :: "fs \<Rightarrow> fs" where
  "read_only s = s\<lparr>writable := (\<lambda>p. False)\<rparr>"

definition loose_entries :: fs where
  "loose_entries = open_fs [''/app/journal_default.json'' \<mapsto>
                      Content (JObj [(''entries'', JArr [JStr ''note'', JObj entry_b])])]"

section \<open>Properties\<close>

subsection \<open>Sentiment\<close>




lemma sample_feed_snapshot:
  "get_market_data (Some sample_feed) ''09:30:00 AM EST'' = Some
     \<lparr>md_quotes = [(''^GSPC'', \<lparr>name = ''SPX'', price = 102, change = 2, direction = ''up''\<rparr>)],
      md_vix = Some \<lparr>name = ''VIX'', price = 14, change = 0, direction = ''flat'',
                     status = ''LOW''\<rparr>,
      md_sentiment = \<lparr>label = ''STRONGLY BULLISH'', color = ''green'', icon = [green_circle]\<rparr>,
      md_timestamp = ''09:30:00 AM EST''\<rparr>"
  by (simp add: get_market_data_def symbols_def sample_feed_def index_quote_def fetch_vix_def
      round2_def direction_of_def Let_def spy_change_def vix_price_def score_of_def
      sentiment_of_def)



subsection \<open>The cloud store\<close>

lemma map_of_dict_set: "map_of (dict_set d k v) = (map_of d)(k \<mapsto> v)"
  by (induction d) (auto simp: fun_eq_iff)

lemma dict_get_dict_set:
  "dict_get (dict_set d k v) k' dflt = (if k' = k then v else dict_get d k' dflt)"
  by (simp add: dict_get_def map_of_dict_set)

lemma save_writable:
  "writable s (get_user_journal_path ev u) \<Longrightarrow>
   save_cloud_journal ev s data u =
     (True, s\<lparr>files := (files s)(get_user_journal_path ev u \<mapsto> Content data)\<rparr>)"
  by (simp add: save_cloud_journal_def Let_def)

lemma save_unwritable:
  "\<not> writable s (get_user_journal_path ev u) \<Longrightarrow> save_cloud_journal ev s data u = (False, s)"
  by (simp add: save_cloud_journal_def Let_def)

lemma load_after_write:
  "readable s (get_user_journal_path ev u) \<Longrightarrow>
   load_cloud_journal ev (s\<lparr>files := (files s)(get_user_journal_path ev u \<mapsto> Content data)\<rparr>) u = data"
  by (simp add: load_cloud_journal_def Let_def)

lemma load_nonempty_readable:
  assumes "load_cloud_journal ev s u = JObj journal"
      and "map_of journal ''entries'' = Some (JArr e)" and "e \<noteq> []"
  shows "readable s (get_user_journal_path ev u)"
  using assms
  by (auto simp: load_cloud_journal_def Let_def empty_journal_def split: option.splits if_splits)

lemma removed_length: "k < length es \<Longrightarrow> Suc (length (removed k es)) = length es"
  by (simp add: removed_def) 

lemma removed_before: "j < k \<Longrightarrow> k < length es \<Longrightarrow> removed k es ! j = es ! j"
  by (simp add: removed_def nth_append)

lemma removed_after: "k \<le> j \<Longrightarrow> Suc j < length es \<Longrightarrow> removed k es ! j = es ! Suc j"
  by (simp add: removed_def nth_append min_def)

lemma journal_entries_dict_set:
  "journal_entries (JObj (dict_set journal ''entries'' v)) = Inr v"
  by (simp add: journal_entries_def map_of_dict_set)

lemma cloud_env_path: "get_user_journal_path cloud_env None = ''/app/journal_default.json''"
  by (simp add: get_user_journal_path_def cloud_env_def get_current_user_def isalnum_def lower_def Let_def)

lemma local_env_path: "get_user_journal_path local_env None = ''/app/journal_default.json''"
  by (simp add: get_user_journal_path_def local_env_def cloud_env_def get_current_user_def isalnum_def lower_def Let_def)

lemma two_entries_load:
  "load_cloud_journal cloud_env two_entries None = JObj [(''entries'', JArr [JObj entry_a, JObj entry_b])]"
  by (simp add: load_cloud_journal_def cloud_env_path two_entries_def open_fs_def Let_def)

text \<open>
  C1 (as amended). In cloud mode, for a journal whose entries list is \<open>e\<close>, an index
  \<open>i\<close> with \<open>0 \<le> i < length e\<close> at which an entry (a JSON object) stands, and a
  journal file that can be written, \<^verbatim>\<open>api_delete_entry\<close> reports success together with
  the timestamp of that entry (\<^verbatim>\<open>'Unknown'\<close> when it has none), and the stored entries
  list afterwards is \<open>e\<close> without the element at position \<open>i\<close>: one element fewer,
  the entries before \<open>i\<close> in place, the entries after \<open>i\<close> shifted down by one.
\<close>

theorem delete_entry_removes_one:
  assumes cloud: "is_cloud ev"
      and journal: "load_cloud_journal ev s None = JObj journal"
      and entries: "map_of journal ''entries'' = Some (JArr e)"
      and range: "0 \<le> i" "i < int (length e)"
      and entry: "e ! nat i = JObj d"
      and wr: "writable s (get_user_journal_path ev None)"
      and req: "py_get data ''index'' JNull = Inr (JInt i)"
  shows "fst (api_delete_entry ev s data) =
           jsonify (JObj [(''success'', JBool True),
                          (''deleted'', dict_get d ''timestamp'' (JStr ''Unknown''))])
         \<and> journal_entries (load_cloud_journal ev (snd (api_delete_entry ev s data)) None)
             = Inr (JArr (removed (nat i) e))
         \<and> Suc (length (removed (nat i) e)) = length e
         \<and> (\<forall>j < nat i. removed (nat i) e ! j = e ! j)
         \<and> (\<forall>j \<ge> nat i. Suc j < length e \<longrightarrow> removed (nat i) e ! j = e ! Suc j)"
proof -
  let ?p = "get_user_journal_path ev None"
  let ?new = "JObj (dict_set journal ''entries'' (JArr (removed (nat i) e)))"
  have k: "nat i < length e" using range by simp
  then have ne: "e \<noteq> []" by auto
  have rd: "readable s ?p" by (rule load_nonempty_readable [OF journal entries ne])
  have x: "real_of_int i < real (length e)" using range
    by (metis of_int_less_iff of_int_of_nat_eq)
  have del: "delete_cloud ev s (JInt i) =
      (Inr (jsonify (JObj [(''success'', JBool True),
                          (''deleted'', dict_get d ''timestamp'' (JStr ''Unknown''))])),
       snd (save_cloud_journal ev s ?new None))"
    using range entry x
    by (simp add: delete_cloud_def journal entries dict_get_def Let_def py_get_def
        split: prod.splits)
  have api: "api_delete_entry ev s data =
      (jsonify (JObj [(''success'', JBool True),
                          (''deleted'', dict_get d ''timestamp'' (JStr ''Unknown''))]),
       snd (save_cloud_journal ev s ?new None))"
    by (simp add: api_delete_entry_def req cloud del)
  have stored:
      "journal_entries (load_cloud_journal ev (snd (api_delete_entry ev s data)) None)
        = Inr (JArr (removed (nat i) e))"
    by (simp add: api save_writable [OF wr] load_after_write [OF rd] journal_entries_dict_set)
  show ?thesis
    using api stored removed_length [OF k]
    by (simp add: removed_before [OF _ k] removed_after)
qed

theorem delete_entry_removes_one_witness:
  "fst (api_delete_entry cloud_env two_entries (JObj [(''index'', JInt 0)])) =
     jsonify (JObj [(''success'', JBool True),
                    (''deleted'', JStr ''Monday, March 03, 2025 09:30 AM EST'')])
   \<and> journal_entries (load_cloud_journal cloud_env
         (snd (api_delete_entry cloud_env two_entries (JObj [(''index'', JInt 0)]))) None)
       = Inr (JArr [JObj entry_b])"
  using delete_entry_removes_one [of cloud_env two_entries
      "[(''entries'', JArr [JObj entry_a, JObj entry_b])]" "[JObj entry_a, JObj entry_b]" 0
      entry_a "JObj [(''index'', JInt 0)]"]
  by (simp add: two_entries_load cloud_env_path py_get_def dict_get_def removed_def entry_a_def)
     (simp add: cloud_env_def two_entries_def open_fs_def)

lemma loose_entries_load:
  "load_cloud_journal cloud_env loose_entries None =
     JObj [(''entries'', JArr [JStr ''note'', JObj entry_b])]"
  by (simp add: load_cloud_journal_def cloud_env_path loose_entries_def open_fs_def Let_def)

lemma read_only_load:
  "load_cloud_journal cloud_env (read_only two_entries) None =
     JObj [(''entries'', JArr [JObj entry_a, JObj entry_b])]"
  by (simp add: load_cloud_journal_def cloud_env_path two_entries_def open_fs_def read_only_def
      Let_def)

lemma read_only_save:
  "save_cloud_journal cloud_env (read_only two_entries) v None = (False, read_only two_entries)"
  by (simp add: save_cloud_journal_def read_only_def Let_def)

lemma cloud_env_is_cloud: "is_cloud cloud_env"
  by (simp add: cloud_env_def)

text \<open>
  Two inputs at which the claim as first stated fails. When the element at the index is
  not a JSON object, the element is removed and written, then \<^verbatim>\<open>deleted.get\<close> raises
  and the answer is that of the catch-all clause. When the journal file cannot be
  written, \<^verbatim>\<open>save_cloud_journal\<close> returns \<^verbatim>\<open>False\<close>, the handler does not look at it
  and reports success, and both entries are still stored.
\<close>

theorem delete_entry_removes_one_counterexample:
  "fst (api_delete_entry cloud_env loose_entries (JObj [(''index'', JInt 0)])) =
     generic_failure AttributeError
   \<and> journal_entries (load_cloud_journal cloud_env
         (snd (api_delete_entry cloud_env loose_entries (JObj [(''index'', JInt 0)]))) None)
       = Inr (JArr [JObj entry_b])
   \<and> fst (api_delete_entry cloud_env (read_only two_entries) (JObj [(''index'', JInt 0)])) =
       jsonify (JObj [(''success'', JBool True),
                      (''deleted'', JStr ''Monday, March 03, 2025 09:30 AM EST'')])
   \<and> journal_entries (load_cloud_journal cloud_env
         (snd (api_delete_entry cloud_env (read_only two_entries) (JObj [(''index'', JInt 0)])))
         None)
       = Inr (JArr [JObj entry_a, JObj entry_b])"
proof -
  have wr: "writable loose_entries ''/app/journal_default.json''"
    by (simp add: loose_entries_def open_fs_def)
  have a: "api_delete_entry cloud_env loose_entries (JObj [(''index'', JInt 0)]) =
      (generic_failure AttributeError,
       loose_entries\<lparr>files := (files loose_entries)(''/app/journal_default.json'' \<mapsto>
          Content (JObj [(''entries'', JArr [JObj entry_b])]))\<rparr>)"
    by (simp add: api_delete_entry_def py_get_def dict_get_def cloud_env_is_cloud delete_cloud_def
        loose_entries_load removed_def save_cloud_journal_def cloud_env_path wr Let_def)
  have la: "load_cloud_journal cloud_env
      (loose_entries\<lparr>files := (files loose_entries)(''/app/journal_default.json'' \<mapsto>
          Content (JObj [(''entries'', JArr [JObj entry_b])]))\<rparr>) None
      = JObj [(''entries'', JArr [JObj entry_b])]"
    by (simp add: load_cloud_journal_def cloud_env_path loose_entries_def open_fs_def Let_def)
  have b: "api_delete_entry cloud_env (read_only two_entries) (JObj [(''index'', JInt 0)]) =
      (jsonify (JObj [(''success'', JBool True),
                      (''deleted'', JStr ''Monday, March 03, 2025 09:30 AM EST'')]),
       read_only two_entries)"
    by (simp add: api_delete_entry_def py_get_def dict_get_def cloud_env_is_cloud delete_cloud_def
        read_only_load read_only_save removed_def entry_a_def Let_def)
  show ?thesis
    by (simp add: a la b read_only_load journal_entries_def)
qed

subsection \<open>Update by index\<close>

lemma update_entry_fields:
  "map_of (update_entry d c now) =
     (map_of d)(''content'' \<mapsto> JStr c, ''edited'' \<mapsto> JStr now, ''preview'' \<mapsto> JStr (preview_of c))"
  by (simp add: update_entry_def map_of_dict_set)

lemma update_empty_content_rejected:
  "py_get data ''content'' JNull = Inr (JStr []) \<Longrightarrow>
   code (fst (api_update_entry ev s now data)) = 400 \<and> snd (api_update_entry ev s now data) = s"
  by (cases data) (simp_all add: api_update_entry_def py_get_def jsonify_status_def)

text \<open>
  C10 (as amended). In cloud mode, for a journal whose entries list is \<open>e\<close>, an index
  \<open>i\<close> with \<open>0 \<le> i < length e\<close> at which an entry (a JSON object) stands, a
  non-empty new content \<open>c\<close> and a journal file that can be written,
  \<^verbatim>\<open>api_update_entry\<close> reports success, and in the stored journal afterwards entry
  \<open>i\<close> has \<^verbatim>\<open>content\<close> equal to \<open>c\<close>, \<^verbatim>\<open>edited\<close> set to the current time and
  \<^verbatim>\<open>preview\<close> set to the first 150 characters of \<open>c\<close> with newlines turned into
  spaces (and \<^verbatim>\<open>...\<close> appended when \<open>c\<close> is longer). Every other field of entry
  \<open>i\<close>, its timestamp and sentiment among them, and every other entry are unchanged.
  Every request with empty content is rejected with status 400 and changes nothing.
\<close>

theorem update_entry_frame:
  assumes cloud: "is_cloud ev"
      and journal: "load_cloud_journal ev s None = JObj journal"
      and entries: "map_of journal ''entries'' = Some (JArr e)"
      and range: "0 \<le> i" "i < int (length e)"
      and entry: "e ! nat i = JObj d"
      and wr: "writable s (get_user_journal_path ev None)"
      and req_index: "py_get data ''index'' JNull = Inr (JInt i)"
      and req_content: "py_get data ''content'' JNull = Inr (JStr c)"
      and nonempty: "c \<noteq> []"
  shows "fst (api_update_entry ev s now data) =
           jsonify (JObj [(''success'', JBool True), (''message'', JStr ''Entry updated'')])
         \<and> journal_entries (load_cloud_journal ev (snd (api_update_entry ev s now data)) None)
             = Inr (JArr (e[nat i := JObj (update_entry d c now)]))
         \<and> map_of (update_entry d c now) ''content'' = Some (JStr c)
         \<and> map_of (update_entry d c now) ''edited'' = Some (JStr now)
         \<and> map_of (update_entry d c now) ''preview'' =
             Some (JStr (map (\<lambda>ch. if ch = CHR 0x0A then CHR '' '' else ch) (take 150 c)
                         @ (if length c > 150 then ''...'' else [])))
         \<and> map_of (update_entry d c now) ''timestamp'' = map_of d ''timestamp''
         \<and> map_of (update_entry d c now) ''sentiment'' = map_of d ''sentiment''
         \<and> (\<forall>k. k \<notin> set [''content'', ''edited'', ''preview''] \<longrightarrow>
                map_of (update_entry d c now) k = map_of d k)
         \<and> length (e[nat i := JObj (update_entry d c now)]) = length e
         \<and> (\<forall>j < length e. j \<noteq> nat i \<longrightarrow> e[nat i := JObj (update_entry d c now)] ! j = e ! j)
         \<and> (\<forall>data'. py_get data' ''content'' JNull = Inr (JStr []) \<longrightarrow>
                code (fst (api_update_entry ev s now data')) = 400
              \<and> snd (api_update_entry ev s now data') = s)"
proof -
  let ?p = "get_user_journal_path ev None"
  let ?new = "JObj (dict_set journal ''entries'' (JArr (e[nat i := JObj (update_entry d c now)])))"
  let ?ok = "jsonify (JObj [(''success'', JBool True), (''message'', JStr ''Entry updated'')])"
  have k: "nat i < length e" using range by simp
  then have ne: "e \<noteq> []" by auto
  have rd: "readable s ?p" by (rule load_nonempty_readable [OF journal entries ne])
  have x: "real_of_int i < real (length e)" using range
    by (metis of_int_less_iff of_int_of_nat_eq)
  have upd: "update_cloud ev s now (JInt i) (JStr c) =
      Inr (?ok, snd (save_cloud_journal ev s ?new None))"
    using range entry x
    by (simp add: update_cloud_def journal entries dict_get_def Let_def split: prod.splits)
  have api: "api_update_entry ev s now data = (?ok, snd (save_cloud_journal ev s ?new None))"
    by (simp add: api_update_entry_def req_index req_content cloud upd nonempty)
  have stored:
      "journal_entries (load_cloud_journal ev (snd (api_update_entry ev s now data)) None)
        = Inr (JArr (e[nat i := JObj (update_entry d c now)]))"
    by (simp add: api save_writable [OF wr] load_after_write [OF rd] journal_entries_dict_set)
  have pre: "preview_of c = map (\<lambda>ch. if ch = CHR 0x0A then CHR '' '' else ch) (take 150 c)
                         @ (if length c > 150 then ''...'' else [])"
    by (simp add: preview_of_def Let_def)
  have main: "fst (api_update_entry ev s now data) = ?ok
         \<and> journal_entries (load_cloud_journal ev (snd (api_update_entry ev s now data)) None)
             = Inr (JArr (e[nat i := JObj (update_entry d c now)]))
         \<and> map_of (update_entry d c now) ''content'' = Some (JStr c)
         \<and> map_of (update_entry d c now) ''edited'' = Some (JStr now)
         \<and> map_of (update_entry d c now) ''preview'' =
             Some (JStr (map (\<lambda>ch. if ch = CHR 0x0A then CHR '' '' else ch) (take 150 c)
                         @ (if length c > 150 then ''...'' else [])))
         \<and> map_of (update_entry d c now) ''timestamp'' = map_of d ''timestamp''
         \<and> map_of (update_entry d c now) ''sentiment'' = map_of d ''sentiment''
         \<and> (\<forall>k. k \<notin> set [''content'', ''edited'', ''preview''] \<longrightarrow>
                map_of (update_entry d c now) k = map_of d k)
         \<and> length (e[nat i := JObj (update_entry d c now)]) = length e
         \<and> (\<forall>j < length e. j \<noteq> nat i \<longrightarrow> e[nat i := JObj (update_entry d c now)] ! j = e ! j)"
    using api stored by (simp add: update_entry_fields pre)
  have empty: "\<forall>data'. py_get data' ''content'' JNull = Inr (JStr []) \<longrightarrow>
                code (fst (api_update_entry ev s now data')) = 400
              \<and> snd (api_update_entry ev s now data') = s"
    using update_empty_content_rejected by blast
  from main empty show ?thesis by blast
qed

theorem update_entry_frame_witness:
  "fst (api_update_entry cloud_env two_entries ''2025-03-05 08:15''
          (JObj [(''index'', JInt 1), (''content'', JStr ''Sold QQQ'')])) =
     jsonify (JObj [(''success'', JBool True), (''message'', JStr ''Entry updated'')])
   \<and> journal_entries (load_cloud_journal cloud_env
         (snd (api_update_entry cloud_env two_entries ''2025-03-05 08:15''
                 (JObj [(''index'', JInt 1), (''content'', JStr ''Sold QQQ'')]))) None)
       = Inr (JArr [JObj entry_a,
                    JObj [(''timestamp'', JStr ''Tuesday, March 04, 2025 10:00 AM EST''),
                          (''sentiment'', JObj []), (''content'', JStr ''Sold QQQ''),
                          (''saved_at'', JStr ''2025-03-04T15:00:00+00:00''),
                          (''edited'', JStr ''2025-03-05 08:15''),
                          (''preview'', JStr ''Sold QQQ'')]])"
  using update_entry_frame [of cloud_env two_entries
      "[(''entries'', JArr [JObj entry_a, JObj entry_b])]" "[JObj entry_a, JObj entry_b]" 1
      entry_b "JObj [(''index'', JInt 1), (''content'', JStr ''Sold QQQ'')]" "''Sold QQQ''"
      "''2025-03-05 08:15''"]
  by (simp add: two_entries_load cloud_env_path py_get_def dict_get_def entry_b_def
        update_entry_def preview_of_def)
     (simp add: cloud_env_def two_entries_def open_fs_def)

text \<open>
  Two inputs at which the claim as first stated fails. An update with empty content is
  rejected with status 400 and leaves entry \<open>i\<close> as it was, so its content is not the
  (empty) new content. When the journal file cannot be written, the handler does not
  look at the result of \<^verbatim>\<open>save_cloud_journal\<close> and reports success, and the stored
  entries are unchanged.
\<close>

theorem update_entry_frame_counterexample:
  "py_get (JObj [(''index'', JInt 0), (''content'', JStr [])]) ''content'' JNull = Inr (JStr [])
   \<and> code (fst (api_update_entry cloud_env two_entries ''2025-03-05 08:15''
              (JObj [(''index'', JInt 0), (''content'', JStr [])]))) = 400
   \<and> journal_entries (load_cloud_journal cloud_env
         (snd (api_update_entry cloud_env two_entries ''2025-03-05 08:15''
                 (JObj [(''index'', JInt 0), (''content'', JStr [])]))) None)
       = Inr (JArr [JObj entry_a, JObj entry_b])
   \<and> map_of entry_a ''content'' \<noteq> Some (JStr [])
   \<and> fst (api_update_entry cloud_env (read_only two_entries) ''2025-03-05 08:15''
              (JObj [(''index'', JInt 1), (''content'', JStr ''Sold QQQ'')])) =
       jsonify (JObj [(''success'', JBool True), (''message'', JStr ''Entry updated'')])
   \<and> journal_entries (load_cloud_journal cloud_env
         (snd (api_update_entry cloud_env (read_only two_entries) ''2025-03-05 08:15''
                 (JObj [(''index'', JInt 1), (''content'', JStr ''Sold QQQ'')]))) None)
       = Inr (JArr [JObj entry_a, JObj entry_b])"
proof -
  have b: "api_update_entry cloud_env (read_only two_entries) ''2025-03-05 08:15''
              (JObj [(''index'', JInt 1), (''content'', JStr ''Sold QQQ'')]) =
      (jsonify (JObj [(''success'', JBool True), (''message'', JStr ''Entry updated'')]),
       read_only two_entries)"
    by (simp add: api_update_entry_def py_get_def dict_get_def cloud_env_is_cloud update_cloud_def
        read_only_load read_only_save entry_b_def Let_def)
  show ?thesis
    by (simp add: b read_only_load)
       (simp add: api_update_entry_def py_get_def dict_get_def jsonify_status_def two_entries_load
          journal_entries_def entry_a_def)
qed

subsection \<open>The document-backed mode has no delete and no update\<close>

text \<open>
  C3 (as amended). When \<^verbatim>\<open>IS_CLOUD\<close> is false, \<^verbatim>\<open>api_delete_entry\<close> and
  \<^verbatim>\<open>api_update_entry\<close> leave the stored journal unchanged for every request, and for
  every request whose body is a JSON object they answer with an error payload and status
  400. A body that is not a JSON object makes \<^verbatim>\<open>data.get\<close> raise, which the handlers
  report through their catch-all clause.
\<close>

theorem local_mode_rejects:
  "\<not> is_cloud ev \<Longrightarrow>
     snd (api_delete_entry ev s data) = s
   \<and> snd (api_update_entry ev s now data) = s
   \<and> (is_dict data \<longrightarrow>
         code (fst (api_delete_entry ev s data)) = 400
       \<and> code (fst (api_update_entry ev s now data)) = 400
       \<and> body (fst (api_delete_entry ev s data)) \<in>
             set [Json (error_payload ''Missing entry index''),
                  Json (error_payload ''Delete not supported in local mode'')]
       \<and> body (fst (api_update_entry ev s now data)) \<in>
             set [Json (error_payload ''Missing entry index''),
                  Json (error_payload ''Missing content''),
                  Json (error_payload ''Update not supported in local mode'')])
   \<and> (\<not> is_dict data \<longrightarrow>
         fst (api_delete_entry ev s data) = generic_failure AttributeError
       \<and> fst (api_update_entry ev s now data) = generic_failure AttributeError)"
  by (cases data)
     (simp_all add: api_delete_entry_def api_update_entry_def py_get_def jsonify_status_def
        generic_failure_def)

theorem local_mode_rejects_witness:
  "\<not> is_cloud local_env
   \<and> fst (api_delete_entry local_env two_entries (JObj [(''index'', JInt 0)])) =
       jsonify_status (error_payload ''Delete not supported in local mode'') 400
   \<and> fst (api_update_entry local_env two_entries ''2025-03-05 08:15''
            (JObj [(''index'', JInt 0), (''content'', JStr ''Sold QQQ'')])) =
       jsonify_status (error_payload ''Update not supported in local mode'') 400
   \<and> snd (api_delete_entry local_env two_entries (JObj [(''index'', JInt 0)])) = two_entries"
  using local_mode_rejects [of local_env two_entries "JObj [(''index'', JInt 0)]"
      "''2025-03-05 08:15''"]
  by (simp add: local_env_def cloud_env_def api_delete_entry_def api_update_entry_def py_get_def
      dict_get_def)

text \<open>A request whose body is the JSON list \<^verbatim>\<open>[]\<close> is answered with status 500.\<close>

theorem local_mode_status_counterexample:
  "\<not> is_cloud local_env
   \<and> code (fst (api_delete_entry local_env two_entries (JArr []))) = 500
   \<and> code (fst (api_update_entry local_env two_entries ''2025-03-05 08:15'' (JArr []))) = 500"
  by (simp add: local_env_def cloud_env_def api_delete_entry_def api_update_entry_def py_get_def
      generic_failure_def)

subsection \<open>Loading the journal\<close>

lemma bare_journal_load: "load_cloud_journal cloud_env bare_journal None = JObj []"
  by (simp add: load_cloud_journal_def cloud_env_path bare_journal_def open_fs_def Let_def)

text \<open>
  C9 (as amended). \<^verbatim>\<open>load_cloud_journal\<close> returns \<^verbatim>\<open>{"entries": []}\<close> when the journal
  file of the user does not exist, cannot be opened or does not parse, and otherwise
  returns the parsed content of the file as it is. So its result has the key
  \<^verbatim>\<open>'entries'\<close> exactly when the file, if it is there and parses, holds a dict with
  that key.
\<close>

theorem load_cloud_journal_shape:
  "(files s (get_user_journal_path ev username) = None
      \<or> \<not> readable s (get_user_journal_path ev username)
      \<or> files s (get_user_journal_path ev username) = Some Corrupt
    \<longrightarrow> load_cloud_journal ev s username = JObj [(''entries'', JArr [])])
   \<and> (readable s (get_user_journal_path ev username)
        \<and> files s (get_user_journal_path ev username) = Some (Content v)
    \<longrightarrow> load_cloud_journal ev s username = v)
   \<and> (has_entries (load_cloud_journal ev s username) \<longleftrightarrow>
        (\<forall>v. readable s (get_user_journal_path ev username)
              \<and> files s (get_user_journal_path ev username) = Some (Content v)
           \<longrightarrow> has_entries v))"
  by (auto simp: load_cloud_journal_def empty_journal_def has_entries_def Let_def
      split: option.splits file_content.splits)

theorem load_cloud_journal_shape_witness:
  "files (open_fs Map.empty) (get_user_journal_path cloud_env None) = None
   \<and> load_cloud_journal cloud_env (open_fs Map.empty) None = JObj [(''entries'', JArr [])]
   \<and> load_cloud_journal cloud_env two_entries None
       = JObj [(''entries'', JArr [JObj entry_a, JObj entry_b])]"
  using load_cloud_journal_shape [of "open_fs Map.empty" cloud_env None JNull]
    load_cloud_journal_shape [of two_entries cloud_env None
      "JObj [(''entries'', JArr [JObj entry_a, JObj entry_b])]"]
  by (simp add: open_fs_def cloud_env_path two_entries_def)

text \<open>
  A journal file holding \<^verbatim>\<open>{}\<close> is loaded as it is: the result has no
  \<^verbatim>\<open>'entries'\<close> key, and \<^verbatim>\<open>journal['entries']\<close> raises \<^verbatim>\<open>KeyError\<close> on it.
\<close>

theorem load_cloud_journal_shape_counterexample:
  "\<not> has_entries (load_cloud_journal cloud_env bare_journal None)
   \<and> journal_entries (load_cloud_journal cloud_env bare_journal None) = Inl KeyError"
  by (simp add: bare_journal_load has_entries_def journal_entries_def)

subsection \<open>Saving appends\<close>

lemma length_normalized: "length (normalized clock k ds) = length ds"
  by (induction ds arbitrary: k) auto

lemma add_cloud_entry_ok:
  assumes "load_cloud_journal ev s None = JObj journal"
      and "map_of journal ''entries'' = Some (JArr e)"
  shows "add_cloud_entry ev s x None =
           Inr (save_cloud_journal ev s (JObj (dict_set journal ''entries'' (JArr (e @ [x])))) None)"
  using assms by (simp add: add_cloud_entry_def)

lemma save_loop_success:
  assumes "readable s (get_user_journal_path ev None)"
      and "load_cloud_journal ev s None = JObj journal"
      and "map_of journal ''entries'' = Some (JArr e)"
      and "save_loop ev clock k s r = (Inr None, s')"
  shows "\<exists>ds. r = map JObj ds
           \<and> journal_entries (load_cloud_journal ev s' None)
               = Inr (JArr (e @ normalized clock k ds))"
  using assms
proof (induction r arbitrary: s k e journal)
  case Nil
  then show ?case by (simp add: journal_entries_def)
next
  case (Cons x r)
  let ?p = "get_user_journal_path ev None"
  from Cons.prems(4) obtain d where x: "x = JObj d"
    by (cases x) auto
  let ?x = "cloud_entry d (fst (clock k)) (snd (clock k))"
  let ?j = "dict_set journal ''entries'' (JArr (e @ [?x]))"
  have add: "add_cloud_entry ev s ?x None = Inr (save_cloud_journal ev s (JObj ?j) None)"
    by (rule add_cloud_entry_ok [OF Cons.prems(2,3)])
  show ?case
  proof (cases "writable s ?p")
    case False
    with Cons.prems(4) show ?thesis
      by (simp add: x add save_unwritable)
  next
    case True
    let ?s1 = "s\<lparr>files := (files s)(?p \<mapsto> Content (JObj ?j))\<rparr>"
    have step: "save_loop ev clock (Suc k) ?s1 r = (Inr None, s')"
      using Cons.prems(4) True by (simp add: x add save_writable)
    have rd: "readable ?s1 ?p" using Cons.prems(1) by simp
    have ld: "load_cloud_journal ev ?s1 None = JObj ?j"
      by (rule load_after_write [OF Cons.prems(1)])
    have en: "map_of ?j ''entries'' = Some (JArr (e @ [?x]))"
      by (simp add: map_of_dict_set)
    from Cons.IH [OF rd ld en step] obtain ds where
      "r = map JObj ds"
      "journal_entries (load_cloud_journal ev s' None)
         = Inr (JArr ((e @ [?x]) @ normalized clock (Suc k) ds))"
      by blast
    then have "x # r = map JObj (d # ds)
       \<and> journal_entries (load_cloud_journal ev s' None)
           = Inr (JArr (e @ normalized clock k (d # ds)))"
      by (simp add: x)
    then show ?thesis by (rule exI [of _ "d # ds"])
  qed
qed

lemma save_loop_total:
  assumes "readable s (get_user_journal_path ev None)"
      and "writable s (get_user_journal_path ev None)"
      and "load_cloud_journal ev s None = JObj journal"
      and "map_of journal ''entries'' = Some (JArr e)"
  shows "\<exists>s'. save_loop ev clock k s (map JObj ds) = (Inr None, s')"
  using assms
proof (induction ds arbitrary: s k e journal)
  case Nil
  then show ?case by simp
next
  case (Cons d ds)
  let ?p = "get_user_journal_path ev None"
  let ?x = "cloud_entry d (fst (clock k)) (snd (clock k))"
  let ?j = "dict_set journal ''entries'' (JArr (e @ [?x]))"
  let ?s1 = "s\<lparr>files := (files s)(?p \<mapsto> Content (JObj ?j))\<rparr>"
  have add: "add_cloud_entry ev s ?x None = Inr (True, ?s1)"
    by (simp add: add_cloud_entry_ok [OF Cons.prems(3,4)] save_writable [OF Cons.prems(2)])
  have rd: "readable ?s1 ?p" using Cons.prems(1) by simp
  have wr: "writable ?s1 ?p" using Cons.prems(2) by simp
  have ld: "load_cloud_journal ev ?s1 None = JObj ?j"
    by (rule load_after_write [OF Cons.prems(1)])
  have en: "map_of ?j ''entries'' = Some (JArr (e @ [?x]))"
    by (simp add: map_of_dict_set)
  from Cons.IH [OF rd wr ld en, of "Suc k"] show ?case
    by (simp add: add)
qed

lemma save_journal_cloud:
  assumes "is_cloud ev" and "py_get data ''entries'' (JArr []) = Inr (JArr r)" and "r \<noteq> []"
  shows "api_save_journal ev doc clock s data =
           (case save_loop ev clock 0 s r of
              (Inl e, s') \<Rightarrow> (save_failure e, s')
            | (Inr (Some x), s') \<Rightarrow> (x, s')
            | (Inr None, s') \<Rightarrow>
                (jsonify (JObj [(''success'', JBool True), (''count'', JInt (int (length r))),
                                (''mode'', JStr ''cloud'')]), s'))"
proof -
  have "api_save_journal ev doc clock s data =
          (case save_loop ev clock 0 s r of
              (Inl e, s') \<Rightarrow> (save_failure e, s')
            | (Inr (Some x), s') \<Rightarrow> (x, s')
            | (Inr None, s') \<Rightarrow>
                (jsonify (JObj [(''success'', JBool True), (''count'', JInt (int (length r))),
                                (''mode'', JStr ''cloud'')]), s'))"
    unfolding api_save_journal_def using assms by simp
  then show ?thesis .
qed

lemma save_loop_failure_code:
  "save_loop ev clock k s r = (Inr (Some x), s') \<Longrightarrow> code x = 500"
  by (induction r arbitrary: s k)
     (auto simp: jsonify_status_def split: json.splits sum.splits prod.splits if_splits)

lemma save_failure_code: "code (save_failure e) = 500"
  by (simp add: save_failure_def jsonify_status_def generic_failure_def)

text \<open>
  C8. In cloud mode, for a stored journal with entries list \<open>e\<close> and a non-empty request
  list \<open>r\<close>, whenever \<^verbatim>\<open>api_save_journal\<close> answers with success (status 200), every
  element of \<open>r\<close> is a JSON object, the stored entries list afterwards is \<open>e\<close> followed
  by the normalized entries of \<open>r\<close> in request order, every element of \<open>e\<close> is where it
  was, and the response reports the count \<open>length r\<close>. The journal file is one the
  process can read back.
\<close>

theorem save_journal_appends:
  assumes cloud: "is_cloud ev"
      and rd: "readable s (get_user_journal_path ev None)"
      and journal: "load_cloud_journal ev s None = JObj journal"
      and entries: "map_of journal ''entries'' = Some (JArr e)"
      and req: "py_get data ''entries'' (JArr []) = Inr (JArr r)" "r \<noteq> []"
      and success: "code (fst (api_save_journal ev doc clock s data)) = 200"
  shows "\<exists>ds. r = map JObj ds
           \<and> journal_entries (load_cloud_journal ev (snd (api_save_journal ev doc clock s data)) None)
               = Inr (JArr (e @ normalized clock 0 ds))
           \<and> (\<forall>j < length e. (e @ normalized clock 0 ds) ! j = e ! j)
           \<and> length (e @ normalized clock 0 ds) = length e + length r
           \<and> fst (api_save_journal ev doc clock s data) =
               jsonify (JObj [(''success'', JBool True), (''count'', JInt (int (length r))),
                              (''mode'', JStr ''cloud'')])"
proof -
  obtain res s' where loop: "save_loop ev clock 0 s r = (res, s')"
    by (cases "save_loop ev clock 0 s r")
  have api: "api_save_journal ev doc clock s data =
           (case res of
              Inl e \<Rightarrow> (save_failure e, s')
            | Inr (Some x) \<Rightarrow> (x, s')
            | Inr None \<Rightarrow>
                (jsonify (JObj [(''success'', JBool True), (''count'', JInt (int (length r))),
                                (''mode'', JStr ''cloud'')]), s'))"
    by (simp add: save_journal_cloud [OF cloud req] loop)
  have res: "res = Inr None"
  proof (cases res)
    case (Inl e)
    with api success show ?thesis by (simp add: save_failure_code)
  next
    case (Inr opt)
    show ?thesis
    proof (cases opt)
      case None
      with Inr show ?thesis by simp
    next
      case (Some x)
      with Inr api success save_loop_failure_code [of ev clock 0 s r x s'] loop
      show ?thesis by simp
    qed
  qed
  from save_loop_success [OF rd journal entries loop [unfolded res]] obtain ds where
    ds: "r = map JObj ds"
        "journal_entries (load_cloud_journal ev s' None) = Inr (JArr (e @ normalized clock 0 ds))"
    by blast
  have "r = map JObj ds
           \<and> journal_entries (load_cloud_journal ev (snd (api_save_journal ev doc clock s data)) None)
               = Inr (JArr (e @ normalized clock 0 ds))
           \<and> (\<forall>j < length e. (e @ normalized clock 0 ds) ! j = e ! j)
           \<and> length (e @ normalized clock 0 ds) = length e + length r
           \<and> fst (api_save_journal ev doc clock s data) =
               jsonify (JObj [(''success'', JBool True), (''count'', JInt (int (length r))),
                              (''mode'', JStr ''cloud'')])"
    using ds by (simp add: api res nth_append length_normalized)
  then show ?thesis by (rule exI [of _ ds])
qed

lemma save_one_entry:
  "api_save_journal cloud_env no_doc fixed_clock two_entries one_entry_request =
     (jsonify (JObj [(''success'', JBool True), (''count'', JInt 1), (''mode'', JStr ''cloud'')]),
      two_entries\<lparr>files := (files two_entries)(''/app/journal_default.json'' \<mapsto>
         Content (JObj [(''entries'', JArr [JObj entry_a, JObj entry_b,
            JObj [(''timestamp'', JStr ''Wednesday, March 05, 2025 08:15 AM EST''),
                  (''sentiment'', JObj []), (''content'', JStr ''Held cash''),
                  (''saved_at'', JStr ''2025-03-05T13:15:00+00:00'')]])]))\<rparr>)"
  by (simp add: api_save_journal_def one_entry_request_def py_get_def dict_get_def
      add_cloud_entry_def two_entries_load save_cloud_journal_def cloud_env_path cloud_entry_def
      fixed_clock_def)
     (simp add: cloud_env_def two_entries_def open_fs_def)

theorem save_journal_appends_witness:
  "code (fst (api_save_journal cloud_env no_doc fixed_clock two_entries one_entry_request)) = 200
   \<and> journal_entries (load_cloud_journal cloud_env
         (snd (api_save_journal cloud_env no_doc fixed_clock two_entries one_entry_request)) None)
       = Inr (JArr [JObj entry_a, JObj entry_b,
            JObj [(''timestamp'', JStr ''Wednesday, March 05, 2025 08:15 AM EST''),
                  (''sentiment'', JObj []), (''content'', JStr ''Held cash''),
                  (''saved_at'', JStr ''2025-03-05T13:15:00+00:00'')]])"
  using save_journal_appends [of cloud_env two_entries
      "[(''entries'', JArr [JObj entry_a, JObj entry_b])]" "[JObj entry_a, JObj entry_b]"
      one_entry_request "[JObj [(''content'', JStr ''Held cash'')]]" no_doc fixed_clock]
  by (simp add: save_one_entry jsonify_def two_entries_load cloud_env_path)
     (auto simp: cloud_env_def two_entries_def open_fs_def one_entry_request_def py_get_def
        dict_get_def cloud_entry_def fixed_clock_def)

subsection \<open>Listing after an append\<close>

lemma list_items_snoc:
  "list_items (xs @ [x]) =
     (case list_items xs of
        Inl e \<Rightarrow> Inl e
      | Inr its \<Rightarrow> (case list_item x of Inl e \<Rightarrow> Inl e | Inr it \<Rightarrow> Inr (its @ [it])))"
  by (induction xs) (auto split: sum.splits)

lemma list_item_defined:
  "(\<exists>it. list_item x = Inr it) \<longleftrightarrow>
     (\<exists>d. x = JObj d
        \<and> (truthy (dict_get d ''content'' JNull) \<longrightarrow> (\<exists>c. dict_get d ''content'' JNull = JStr c))
        \<and> is_dict (dict_get d ''sentiment'' (JObj [])))"
proof (cases x)
  case (JObj d)
  show ?thesis
    by (cases "dict_get d ''content'' JNull"; cases "dict_get d ''sentiment'' (JObj [])")
       (simp_all add: JObj list_item_def py_get_def Let_def)
qed (simp_all add: list_item_def)

lemma list_cloud_nonempty:
  assumes "load_cloud_journal ev s None = JObj journal"
      and "map_of journal ''entries'' = Some (JArr xs)" and "xs \<noteq> []"
      and "list_items xs = Inr its"
  shows "list_cloud ev s = Inr (jsonify (JObj [(''entries'', JArr (take 10 (rev its)))]))"
  using assms by (simp add: list_cloud_def journal_entries_def)

text \<open>
  C2 (as amended). In cloud mode, with a journal file that can be read and written, let
  every stored entry and the normalized new entry have a listing item: each is a JSON
  object whose content is a string or is empty or absent and whose sentiment is a JSON
  object or absent (\<open>list_item_defined\<close>). Then \<^verbatim>\<open>api_save_journal\<close> with that one
  entry succeeds and appends it, and \<^verbatim>\<open>api_list_entries\<close> afterwards returns the
  listing items (timestamp, sentiment label, preview, content) of the stored entries,
  most recent first and cut to ten, with the item of the new entry at position 0.
\<close>

theorem append_then_list:
  assumes cloud: "is_cloud ev"
      and rd: "readable s (get_user_journal_path ev None)"
      and wr: "writable s (get_user_journal_path ev None)"
      and journal: "load_cloud_journal ev s None = JObj journal"
      and entries: "map_of journal ''entries'' = Some (JArr e)"
      and req: "py_get data ''entries'' (JArr []) = Inr (JArr [JObj d])"
      and old_items: "list_items e = Inr items"
      and new_item: "list_item (cloud_entry d (fst (clock 0)) (snd (clock 0))) = Inr item"
  shows "fst (api_save_journal ev doc clock s data) =
           jsonify (JObj [(''success'', JBool True), (''count'', JInt 1), (''mode'', JStr ''cloud'')])
         \<and> journal_entries
              (load_cloud_journal ev (snd (api_save_journal ev doc clock s data)) None)
             = Inr (JArr (e @ [cloud_entry d (fst (clock 0)) (snd (clock 0))]))
         \<and> api_list_entries ev (snd (api_save_journal ev doc clock s data)) local =
             jsonify (JObj [(''entries'', JArr (take 10 (item # rev items)))])
         \<and> take 10 (item # rev items) ! 0 = item
         \<and> take 10 (item # rev items) = take 10 (rev (items @ [item]))"
proof -
  let ?p = "get_user_journal_path ev None"
  let ?x = "cloud_entry d (fst (clock 0)) (snd (clock 0))"
  let ?j = "dict_set journal ''entries'' (JArr (e @ [?x]))"
  let ?s1 = "s\<lparr>files := (files s)(?p \<mapsto> Content (JObj ?j))\<rparr>"
  have add: "add_cloud_entry ev s ?x None = Inr (True, ?s1)"
    by (simp add: add_cloud_entry_ok [OF journal entries] save_writable [OF wr])
  have api: "api_save_journal ev doc clock s data =
      (jsonify (JObj [(''success'', JBool True), (''count'', JInt 1), (''mode'', JStr ''cloud'')]),
       ?s1)"
    by (simp add: save_journal_cloud [OF cloud req] add)
  have ld: "load_cloud_journal ev ?s1 None = JObj ?j"
    by (rule load_after_write [OF rd])
  have en: "map_of ?j ''entries'' = Some (JArr (e @ [?x]))"
    by (simp add: map_of_dict_set)
  have its: "list_items (e @ [?x]) = Inr (items @ [item])"
    by (simp add: list_items_snoc old_items new_item)
  have lst: "list_cloud ev ?s1 = Inr (jsonify (JObj [(''entries'', JArr (take 10 (rev (items @ [item]))))]))"
    by (rule list_cloud_nonempty [OF ld en _ its]) simp
  show ?thesis
    by (simp add: api ld journal_entries_dict_set api_list_entries_def cloud lst)
qed

theorem append_then_list_witness:
  "api_list_entries cloud_env
     (snd (api_save_journal cloud_env no_doc fixed_clock two_entries one_entry_request))
     (Inl IndexError) =
   jsonify (JObj [(''entries'', JArr
     [JObj [(''timestamp'', JStr ''Wednesday, March 05, 2025 08:15 AM EST''),
            (''sentiment'', JStr []), (''preview'', JStr ''Held cash...''),
            (''content'', JStr ''Held cash'')],
      JObj [(''timestamp'', JStr ''Tuesday, March 04, 2025 10:00 AM EST''),
            (''sentiment'', JStr []), (''preview'', JStr ''Sold SPY...''),
            (''content'', JStr ''Sold SPY'')],
      JObj [(''timestamp'', JStr ''Monday, March 03, 2025 09:30 AM EST''),
            (''sentiment'', JStr []), (''preview'', JStr ''Bought SPY...''),
            (''content'', JStr ''Bought SPY'')]])])"
  using append_then_list [of cloud_env two_entries
      "[(''entries'', JArr [JObj entry_a, JObj entry_b])]" "[JObj entry_a, JObj entry_b]"
      one_entry_request "[(''content'', JStr ''Held cash'')]"
      "[JObj [(''timestamp'', JStr ''Monday, March 03, 2025 09:30 AM EST''),
            (''sentiment'', JStr []), (''preview'', JStr ''Bought SPY...''),
            (''content'', JStr ''Bought SPY'')],
        JObj [(''timestamp'', JStr ''Tuesday, March 04, 2025 10:00 AM EST''),
            (''sentiment'', JStr []), (''preview'', JStr ''Sold SPY...''),
            (''content'', JStr ''Sold SPY'')]]"
      fixed_clock
      "JObj [(''timestamp'', JStr ''Wednesday, March 05, 2025 08:15 AM EST''),
            (''sentiment'', JStr []), (''preview'', JStr ''Held cash...''),
            (''content'', JStr ''Held cash'')]"
      no_doc "Inl IndexError"]
  by (simp add: two_entries_load cloud_env_path one_entry_request_def py_get_def dict_get_def
        list_item_def entry_a_def entry_b_def cloud_entry_def fixed_clock_def)
     (simp add: cloud_env_def two_entries_def open_fs_def)

text \<open>
  \<^verbatim>\<open>api_save_journal\<close> accepts an entry whose content is the number 5; after that
  \<^verbatim>\<open>api_list_entries\<close> answers with status 500, since slicing the content raises.
\<close>

theorem append_then_list_counterexample:
  "code (fst (api_save_journal cloud_env no_doc fixed_clock (open_fs Map.empty)
                numeric_content_request)) = 200
   \<and> code (api_list_entries cloud_env
             (snd (api_save_journal cloud_env no_doc fixed_clock (open_fs Map.empty)
                     numeric_content_request))
             (Inl IndexError)) = 500"
proof -
  have ld: "load_cloud_journal cloud_env (open_fs Map.empty) None = empty_journal"
    by (simp add: load_cloud_journal_def open_fs_def Let_def)
  have wr: "writable (open_fs Map.empty) ''/app/journal_default.json''"
    by (simp add: open_fs_def)
  have cl: "is_cloud cloud_env" by (simp add: cloud_env_def)
  have api: "api_save_journal cloud_env no_doc fixed_clock (open_fs Map.empty)
                numeric_content_request =
      (jsonify (JObj [(''success'', JBool True), (''count'', JInt 1), (''mode'', JStr ''cloud'')]),
       (open_fs Map.empty)\<lparr>files := (files (open_fs Map.empty))(''/app/journal_default.json'' \<mapsto>
         Content (JObj [(''entries'', JArr [
            JObj [(''timestamp'', JStr ''Wednesday, March 05, 2025 08:15 AM EST''),
                  (''sentiment'', JObj []), (''content'', JInt 5),
                  (''saved_at'', JStr ''2025-03-05T13:15:00+00:00'')]])]))\<rparr>)"
    by (simp add: api_save_journal_def numeric_content_request_def py_get_def dict_get_def
      add_cloud_entry_def ld empty_journal_def save_cloud_journal_def cloud_env_path
      cloud_entry_def fixed_clock_def wr cl)
  show ?thesis
    unfolding api
    by (simp add: jsonify_def api_list_entries_def cl list_cloud_def load_cloud_journal_def
        cloud_env_path open_fs_def journal_entries_def list_item_def dict_get_def
        read_failure_def generic_failure_def)
qed

subsection \<open>Configuration: environment before file\<close>

lemma apply_file_keep:
  "truthy (dict_get config key JNull) \<Longrightarrow>
   dict_get (apply_file data config) key dflt = dict_get config key dflt"
proof (induction data arbitrary: config)
  case Nil
  then show ?case by simp
next
  case (Cons kv data)
  obtain k v where kv: "kv = (k, v)" by (cases kv)
  show ?case
  proof (cases "truthy (dict_get config k JNull)")
    case True
    with Cons show ?thesis by (simp add: kv)
  next
    case False
    with Cons.prems have ne: "key \<noteq> k" by auto
    then have "truthy (dict_get (dict_set config k v) key JNull)"
      using Cons.prems by (simp add: dict_get_dict_set)
    from Cons.IH [OF this] False ne show ?thesis
      by (simp add: kv dict_get_dict_set)
  qed
qed

lemma apply_file_absent:
  "key \<notin> fst ` set data \<Longrightarrow>
   dict_get (apply_file data config) key dflt = dict_get config key dflt"
  by (induction data arbitrary: config) (auto simp: dict_get_dict_set)

lemma apply_file_take:
  "distinct (map fst data) \<Longrightarrow> \<not> truthy (dict_get config key JNull) \<Longrightarrow>
   dict_get (apply_file data config) key dflt =
     (case map_of data key of None \<Rightarrow> dict_get config key dflt | Some val \<Rightarrow> val)"
proof (induction data arbitrary: config)
  case Nil
  then show ?case by simp
next
  case (Cons kv data)
  obtain k v where kv: "kv = (k, v)" by (cases kv)
  show ?case
  proof (cases "k = key")
    case True
    then have "key \<notin> fst ` set data" using Cons.prems(1) by (auto simp: kv)
    from apply_file_absent [OF this] True Cons.prems(2) show ?thesis
      by (simp add: kv dict_get_dict_set)
  next
    case False
    have "\<not> truthy (dict_get (if \<not> truthy (dict_get config k JNull)
                                  then dict_set config k v else config) key JNull)"
      using False Cons.prems(2) by (simp add: dict_get_dict_set)
    from Cons.IH [OF _ this] Cons.prems(1) False show ?thesis
      by (auto simp: kv dict_get_dict_set split: option.splits)
  qed
qed

lemma apply_env_mappings:
  "apply_env (environ ev) env_mappings
     [(''api_key'', JStr []), (''cloudinary_cloud_name'', JStr []),
      (''cloudinary_api_key'', JStr []), (''cloudinary_api_secret'', JStr [])] =
     [(''api_key'', JStr (env_value ev ''ANTHROPIC_API_KEY'')),
      (''cloudinary_cloud_name'', JStr (env_value ev ''CLOUDINARY_CLOUD_NAME'')),
      (''cloudinary_api_key'', JStr (env_value ev ''CLOUDINARY_API_KEY'')),
      (''cloudinary_api_secret'', JStr (env_value ev ''CLOUDINARY_API_SECRET''))]"
  by (simp add: env_mappings_def env_value_def split: option.splits)

lemma load_config_alt:
  "load_config ev s =
     (let config = [(''api_key'', JStr (env_value ev ''ANTHROPIC_API_KEY'')),
                    (''cloudinary_cloud_name'', JStr (env_value ev ''CLOUDINARY_CLOUD_NAME'')),
                    (''cloudinary_api_key'', JStr (env_value ev ''CLOUDINARY_API_KEY'')),
                    (''cloudinary_api_secret'', JStr (env_value ev ''CLOUDINARY_API_SECRET''))]
      in case config_file ev s of None \<Rightarrow> config | Some data \<Rightarrow> apply_file data config)"
  unfolding load_config_def apply_env_mappings config_file_def Let_def
  by (auto split: option.splits file_content.splits json.splits)

lemma load_config_key:
  assumes "(env_var, key) \<in> set env_mappings"
      and "\<forall>data. config_file ev s = Some data \<longrightarrow> distinct (map fst data)"
  shows "dict_get (load_config ev s) key JNull =
           (if env_value ev env_var \<noteq> [] then JStr (env_value ev env_var)
            else case config_file ev s of
                   None \<Rightarrow> JStr []
                 | Some data \<Rightarrow> (case map_of data key of None \<Rightarrow> JStr [] | Some val \<Rightarrow> val))"
proof (cases "config_file ev s")
  case None
  with assms(1) show ?thesis
    by (auto simp: load_config_alt env_mappings_def dict_get_def)
next
  case (Some data)
  let ?config = "[(''api_key'', JStr (env_value ev ''ANTHROPIC_API_KEY'')),
                    (''cloudinary_cloud_name'', JStr (env_value ev ''CLOUDINARY_CLOUD_NAME'')),
                    (''cloudinary_api_key'', JStr (env_value ev ''CLOUDINARY_API_KEY'')),
                    (''cloudinary_api_secret'', JStr (env_value ev ''CLOUDINARY_API_SECRET''))]"
  have d: "distinct (map fst data)" using assms(2) Some by simp
  have base: "dict_get ?config key JNull = JStr (env_value ev env_var)"
    using assms(1) by (auto simp: env_mappings_def dict_get_def)
  have lc: "load_config ev s = apply_file data ?config"
    by (simp add: load_config_alt Some)
  show ?thesis
  proof (cases "env_value ev env_var = []")
    case True
    then have "\<not> truthy (dict_get ?config key JNull)" by (simp only: base) simp
    from apply_file_take [OF d this, of JNull] show ?thesis
      by (simp only: lc base True Some) (simp split: option.splits)
  next
    case False
    then have "truthy (dict_get ?config key JNull)" by (simp only: base) simp
    from apply_file_keep [OF this, of data JNull] show ?thesis
      by (simp only: lc base False Some) simp
  qed
qed

text \<open>
  C7 (as amended). For each of the four configuration keys: when its environment variable
  is set to a non-empty value, \<^verbatim>\<open>load_config\<close> returns that value whatever the
  configuration file holds. When the variable is unset or empty, the key gets the value
  the file gives it, provided the application is not in cloud mode and the file can be
  read as a JSON object that has the key, and the empty string otherwise. In cloud mode
  the file is never read.
\<close>

theorem load_config_priority:
  assumes "(env_var, key) \<in> set env_mappings"
      and "\<forall>data. config_file ev s = Some data \<longrightarrow> distinct (map fst data)"
  shows "(\<forall>v. environ ev env_var = Some v \<and> v \<noteq> [] \<longrightarrow>
             dict_get (load_config ev s) key JNull = JStr v)
         \<and> (environ ev env_var = None \<or> environ ev env_var = Some [] \<longrightarrow>
             dict_get (load_config ev s) key JNull =
               (case config_file ev s of
                  None \<Rightarrow> JStr []
                | Some data \<Rightarrow> (case map_of data key of None \<Rightarrow> JStr [] | Some val \<Rightarrow> val)))
         \<and> (is_cloud ev \<longrightarrow> config_file ev s = None)"
  using load_config_key [OF assms]
  by (auto simp: env_value_def config_file_def)

lemma config_fs_file:
  "config_file env_key_set config_fs = Some [(''api_key'', JStr ''sk-file'')]"
  "config_file env_key_empty config_fs = Some [(''api_key'', JStr ''sk-file'')]"
  by (simp_all add: config_file_def env_key_set_def env_key_empty_def local_env_def cloud_env_def
      config_fs_def open_fs_def)

theorem load_config_priority_witness:
  "(''ANTHROPIC_API_KEY'', ''api_key'') \<in> set env_mappings
   \<and> environ env_key_set ''ANTHROPIC_API_KEY'' = Some ''sk-env''
   \<and> dict_get (load_config env_key_set config_fs) ''api_key'' JNull = JStr ''sk-env''
   \<and> environ env_key_set ''CLOUDINARY_API_KEY'' = None
   \<and> dict_get (load_config env_key_set config_fs) ''cloudinary_api_key'' JNull = JStr []"
  using load_config_priority [of "''ANTHROPIC_API_KEY''" "''api_key''" env_key_set config_fs]
    load_config_priority [of "''CLOUDINARY_API_KEY''" "''cloudinary_api_key''" env_key_set config_fs]
  by (simp add: config_fs_file env_mappings_def)
     (simp add: env_key_set_def)

text \<open>
  With \<^verbatim>\<open>ANTHROPIC_API_KEY\<close> set to the empty string, \<^verbatim>\<open>load_config\<close> returns the
  key of the file, not the value of the variable.
\<close>

theorem load_config_priority_counterexample:
  "environ env_key_empty ''ANTHROPIC_API_KEY'' = Some []
   \<and> \<not> is_cloud env_key_empty
   \<and> dict_get (load_config env_key_empty config_fs) ''api_key'' JNull = JStr ''sk-file''
   \<and> dict_get (load_config env_key_empty config_fs) ''api_key'' JNull \<noteq> JStr []"
  by (simp add: load_config_alt config_fs_file dict_get_def)
     (simp add: env_key_empty_def local_env_def cloud_env_def env_value_def)

subsection \<open>Statuses of the recognized error conditions\<close>

text \<open>
  C6 (as amended). A request with missing input is rejected with status 400 and a JSON
  error payload: empty text to \<^verbatim>\<open>api_process_entry\<close>, an empty entries list to
  \<^verbatim>\<open>api_save_journal\<close>. A journal document that is locked (\<^verbatim>\<open>PermissionError\<close>) is
  reported with an error message of its own when saving, viewing and listing, but with
  status 500, the status of the catch-all clause.
\<close>

theorem recognized_conditions:
  "data = JObj d \<Longrightarrow>
     (\<not> truthy (dict_get d ''text'' (JStr [])) \<longrightarrow>
        api_process_entry repr shw ev s timestamp feeds llm data =
          (jsonify_status (error_payload ''No text provided'') 400, []))
   \<and> (\<not> truthy (dict_get d ''entries'' (JArr [])) \<longrightarrow>
        api_save_journal ev doc clock s data =
          (jsonify_status (error_payload ''No entries to save'') 400, s))
   \<and> (truthy (dict_get d ''entries'' (JArr [])) \<and> \<not> is_cloud ev \<and> docx_installed doc
        \<and> doc_write doc (dict_get d ''entries'' (JArr [])) = Inl PermissionError \<longrightarrow>
        api_save_journal ev doc clock s data =
          (jsonify_status (error_payload ''File is open in another program'') 500, s))
   \<and> (\<not> is_cloud ev \<and> doc_exists doc \<and> docx_installed doc
        \<and> doc_paragraphs doc = Inl PermissionError \<longrightarrow>
        api_view_journal repr ev doc s =
          jsonify_status (error_payload ''Journal file is open in another program'') 500
        \<and> api_list_entries ev s (Inl PermissionError) =
          jsonify_status (error_payload ''Journal file is open in another program'') 500)
   \<and> code (jsonify_status (error_payload ''File is open in another program'') 500)
       = code (generic_failure e)
   \<and> code (jsonify_status (error_payload ''Journal file is open in another program'') 500)
       = code (generic_failure e)"
  by (simp add: api_process_entry_def api_save_journal_def api_view_journal_def
      api_list_entries_def view_local_def py_get_def save_failure_def read_failure_def
      jsonify_status_def generic_failure_def)

theorem recognized_conditions_witness:
  "api_save_journal local_env locked_doc fixed_clock two_entries (JObj [(''entries'', JArr [])]) =
     (jsonify_status (error_payload ''No entries to save'') 400, two_entries)
   \<and> api_save_journal local_env locked_doc fixed_clock two_entries one_entry_request =
     (jsonify_status (error_payload ''File is open in another program'') 500, two_entries)
   \<and> api_view_journal plain_repr local_env locked_doc two_entries =
     jsonify_status (error_payload ''Journal file is open in another program'') 500
   \<and> api_process_entry plain_repr plain_shw local_env two_entries
         ''Wednesday, March 05, 2025 08:15 AM EST'' sample_feeds sample_llm
         (JObj [(''text'', JStr [])]) =
     (jsonify_status (error_payload ''No text provided'') 400, [])"
  using recognized_conditions [of "JObj [(''entries'', JArr [])]" "[(''entries'', JArr [])]"
          plain_repr plain_shw local_env two_entries "''Wednesday, March 05, 2025 08:15 AM EST''"
          sample_feeds sample_llm locked_doc fixed_clock PermissionError]
        recognized_conditions [of one_entry_request
          "[(''entries'', JArr [JObj [(''content'', JStr ''Held cash'')]])]"
          plain_repr plain_shw local_env two_entries "''Wednesday, March 05, 2025 08:15 AM EST''"
          sample_feeds sample_llm locked_doc fixed_clock PermissionError]
        recognized_conditions [of "JObj [(''text'', JStr [])]" "[(''text'', JStr [])]"
          plain_repr plain_shw local_env two_entries "''Wednesday, March 05, 2025 08:15 AM EST''"
          sample_feeds sample_llm locked_doc fixed_clock PermissionError]
  by (simp add: dict_get_def one_entry_request_def local_env_def cloud_env_def locked_doc_def)

text \<open>
  A locked document and a document that fails for another reason get the same status;
  only the message differs.
\<close>

theorem locked_file_status_counterexample:
  "api_view_journal plain_repr local_env locked_doc two_entries =
     jsonify_status (error_payload ''Journal file is open in another program'') 500
   \<and> api_view_journal plain_repr local_env broken_doc two_entries =
     generic_failure (ExternalError ''Package not found'')
   \<and> code (api_view_journal plain_repr local_env locked_doc two_entries) =
     code (api_view_journal plain_repr local_env broken_doc two_entries)
   \<and> code (fst (api_save_journal local_env locked_doc fixed_clock two_entries one_entry_request)) =
     code (fst (api_save_journal local_env broken_doc fixed_clock two_entries one_entry_request))"
  by (simp add: api_view_journal_def view_local_def read_failure_def save_failure_def
      api_save_journal_def one_entry_request_def py_get_def dict_get_def
      local_env_def cloud_env_def locked_doc_def broken_doc_def jsonify_status_def
      generic_failure_def)

subsection \<open>The prompt and the returned content\<close>

text \<open>
  C5. For a request whose text \<open>t\<close> is a non-empty string, \<^verbatim>\<open>api_process_entry\<close>
  calls the LLM exactly once when an API key is configured (and not at all otherwise),
  with the fixed system prompt and the message made of the line \<^verbatim>\<open>Date/Time:\<close> with
  the timestamp, then the market-data block exactly when market inclusion is requested
  and a snapshot is available, then \<^verbatim>\<open>My trading thoughts:\<close> followed by \<open>t\<close>. When
  the LLM answers, the \<^verbatim>\<open>content\<close> field of the response is the text of its first
  content block, unchanged.
\<close>

theorem prompt_and_content:
  assumes obj: "data = JObj d"
      and raw: "dict_get d ''text'' (JStr []) = JStr t" "t \<noteq> []"
  shows "(let include_market = dict_get d ''include_market'' (JBool True);
              api_key = get_api_key ev s;
              market = (if truthy include_market
                        then get_market_data (fst (feeds 0)) (snd (feeds 0)) else None);
              msg = ''Date/Time: '' @ timestamp @ nl @ nl
                    @ (case market of
                         None \<Rightarrow> []
                       | Some m \<Rightarrow> format_market_for_prompt shw (Some m) @ nl @ nl)
                    @ ''My trading thoughts:'' @ nl @ t;
              result = api_process_entry repr shw ev s timestamp feeds llm data
          in (\<not> truthy api_key \<longrightarrow> snd result = [] \<and> code (fst result) = 400)
           \<and> (truthy api_key \<longrightarrow>
                 snd result = [(api_key, SYSTEM_PROMPT, msg)]
               \<and> (\<forall>reply rest. llm (api_key, SYSTEM_PROMPT, msg) = Inr (reply # rest) \<longrightarrow>
                      code (fst result) = 200
                    \<and> (\<exists>fields. body (fst result) = Json (JObj fields)
                          \<and> map_of fields ''content'' = Some (JStr reply)
                          \<and> map_of fields ''raw_text'' = Some (JStr t)
                          \<and> map_of fields ''timestamp'' = Some (JStr timestamp)))))"
proof -
  let ?inc = "dict_get d ''include_market'' (JBool True)"
  let ?market = "if truthy ?inc then get_market_data (fst (feeds 0)) (snd (feeds 0)) else None"
  have msg: "build_message repr shw timestamp ?market (JStr t) =
       ''Date/Time: '' @ timestamp @ nl @ nl
        @ (case ?market of None \<Rightarrow> [] | Some m \<Rightarrow> format_market_for_prompt shw (Some m) @ nl @ nl)
        @ ''My trading thoughts:'' @ nl @ t"
    by (simp add: build_message_def py_str_def Let_def split: option.splits)
  show ?thesis
    unfolding Let_def
    by (simp only: msg [symmetric])
       (auto simp: api_process_entry_def obj py_get_def raw Let_def jsonify_status_def
          jsonify_def generic_failure_def split: sum.splits list.splits)
qed

lemma env_key_set_api_key: "get_api_key env_key_set config_fs = JStr ''sk-env''"
  by (simp add: get_api_key_def load_config_alt config_fs_file dict_get_def)
     (simp add: env_value_def env_key_set_def)

lemma sample_market_block:
  "format_market_for_prompt plain_shw (get_market_data (Some sample_feed) ''09:30:00 AM EST'') =
     ''Current Market Conditions:'' @ nl
     @ ''  SPX (^GSPC): $102.0 (+2.0%)'' @ nl
     @ ''  VIX (VIX): $14.0 (0.0%)'' @ nl
     @ ''  VIX: 14.0 (0.0%) - LOW'' @ nl
     @ ''  Overall Sentiment: '' @ [green_circle] @ '' STRONGLY BULLISH''"
  by (simp add: sample_feed_snapshot format_market_for_prompt_def symbols_def quote_line_def
      vix_line_def plain_shw_def Let_def nl_def)

theorem prompt_and_content_witness:
  "api_process_entry plain_repr plain_shw env_key_set config_fs
      ''Wednesday, March 05, 2025 08:15 AM EST'' sample_feeds sample_llm process_request =
   (jsonify (JObj [(''timestamp'', JStr ''Wednesday, March 05, 2025 08:15 AM EST''),
                   (''sentiment'', JObj [(''label'', JStr ''STRONGLY BULLISH''),
                                         (''color'', JStr ''green''),
                                         (''icon'', JStr [green_circle])]),
                   (''content'', JStr ''Entry of Wednesday''),
                   (''raw_text'', JStr ''Bought SPY at the open'')]),
    [(JStr ''sk-env'', SYSTEM_PROMPT,
      ''Date/Time: Wednesday, March 05, 2025 08:15 AM EST'' @ nl @ nl
      @ ''Current Market Conditions:'' @ nl
      @ ''  SPX (^GSPC): $102.0 (+2.0%)'' @ nl
      @ ''  VIX (VIX): $14.0 (0.0%)'' @ nl
      @ ''  VIX: 14.0 (0.0%) - LOW'' @ nl
      @ ''  Overall Sentiment: '' @ [green_circle] @ '' STRONGLY BULLISH'' @ nl @ nl
      @ ''My trading thoughts:'' @ nl @ ''Bought SPY at the open'')])"
proof -
  let ?r = "api_process_entry plain_repr plain_shw env_key_set config_fs
      ''Wednesday, March 05, 2025 08:15 AM EST'' sample_feeds sample_llm process_request"
  have call: "snd ?r = [(JStr ''sk-env'', SYSTEM_PROMPT,
      ''Date/Time: Wednesday, March 05, 2025 08:15 AM EST'' @ nl @ nl
      @ ''Current Market Conditions:'' @ nl
      @ ''  SPX (^GSPC): $102.0 (+2.0%)'' @ nl
      @ ''  VIX (VIX): $14.0 (0.0%)'' @ nl
      @ ''  VIX: 14.0 (0.0%) - LOW'' @ nl
      @ ''  Overall Sentiment: '' @ [green_circle] @ '' STRONGLY BULLISH'' @ nl @ nl
      @ ''My trading thoughts:'' @ nl @ ''Bought SPY at the open'')]"
    using prompt_and_content [of process_request
        "[(''text'', JStr ''Bought SPY at the open''), (''include_market'', JBool True)]"
        "''Bought SPY at the open''" env_key_set config_fs sample_feeds
        "''Wednesday, March 05, 2025 08:15 AM EST''" plain_shw plain_repr sample_llm]
    by (simp add: process_request_def dict_get_def env_key_set_api_key sample_feeds_def
        sample_feed_snapshot sample_market_block [unfolded sample_feed_snapshot] Let_def)
  have resp: "fst ?r = jsonify (JObj [(''timestamp'', JStr ''Wednesday, March 05, 2025 08:15 AM EST''),
                   (''sentiment'', JObj [(''label'', JStr ''STRONGLY BULLISH''),
                                         (''color'', JStr ''green''),
                                         (''icon'', JStr [green_circle])]),
                   (''content'', JStr ''Entry of Wednesday''),
                   (''raw_text'', JStr ''Bought SPY at the open'')])"
    by (simp add: api_process_entry_def process_request_def py_get_def dict_get_def
        env_key_set_api_key sample_feeds_def sample_feed_snapshot sample_llm_def
        sentiment_json_def Let_def)
  show ?thesis using call resp by (simp add: prod_eq_iff)
qed

end
